theory Spec2Isabelle
  imports Main "HOL-Library.Word"
begin

section \<open>The indy-credx Python bindings (wrappers/python/indy\_credx/bindings.py)\<close>

text \<open>
  The module is a thin layer between Python and the native indy-credx library: it loads
  the shared object once, calls native entry points, turns a non-zero status into a
  \<open>CredxError\<close>, and releases native handles and strings from \<open>__del__\<close> methods.
  The embedding passes the module's state explicitly. What the module cannot see into is
  a parameter: the native library, the loader, \<open>json.loads\<close> on a non-empty input,
  \<open>json.dumps\<close>, and the members of the error-code enumeration (file error.py).
\<close>

subsection \<open>Python values\<close>

text \<open>
  A Python \<open>str\<close> is a sequence of Unicode code points, a \<open>bytes\<close> object a sequence
  of numbers below 256. A \<open>c_char_p\<close> is \<open>None\<close> for the NULL pointer and otherwise the
  buffer it points to; \<open>lib_string\<close> subclasses it without adding data. \<open>c_int64\<close> is a
  64-bit machine integer, and \<open>ObjectHandle\<close> subclasses it.
\<close>

type_synonym str = "nat list"
type_synonym bytes = "nat list"
type_synonym c_char_p = "bytes option"
type_synonym lib_string = c_char_p
type_synonym c_int64 = "64 word"
type_synonym ObjectHandle = c_int64

text \<open>A string literal of the source, as code points.\<close>

definition lit :: "string \<Rightarrow> str" where
  "lit cs = map of_char cs"

text \<open>
  What \<open>json.loads\<close> can return. A float is \<open>Finite m e\<close> for \<open>m * 2 ^ e\<close>, or one of
  the three special values the decoder accepts.
\<close>

datatype py_float = Finite int int | PosInf | NegInf | NaN

datatype py_value =
    PyNone
  | PyBool bool
  | PyInt int
  | PyFloat py_float
  | PyStr str
  | PyList "py_value list"
  | PyDict "(str \<times> py_value) list"

text \<open>
  Modelled from the spec: error.py, which declares \<open>CredxErrorCode\<close> and \<open>CredxError\<close>, is
  not among the sources. The spec calls the error code a closed enumeration mirrored from
  the native library's codes, plus one managed-only variant for the wrapper's own
  failures, and a structured error a triple of code, message and optional extra. The
  integer values of the members are parameters (\<open>wrapper_value\<close> and \<open>native_codes\<close> of
  the environment below).
\<close>

datatype CredxErrorCode = WRAPPER | Native int

datatype CredxError =
  CredxError (code: CredxErrorCode) (message: py_value) (extra: py_value)

datatype py_exception =
    Raised CredxError
  | TypeError
  | ValueError
  | KeyError
  | AttributeError
  | JSONDecodeError
  | UnicodeDecodeError
  | UnicodeEncodeError
  | RecursionError

subsection \<open>The native library, the environment and the module's state\<close>

datatype CDLL = CDLL string

text \<open>A native entry point together with the arguments passed by value.\<close>

datatype native_call =
    credx_set_default_logger
  | credx_get_current_error
  | credx_object_free c_int64
  | credx_object_get_json c_int64
  | credx_string_free c_char_p
  | credx_create_schema c_char_p c_char_p c_char_p c_char_p c_int64

fun fn_name :: "native_call \<Rightarrow> string" where
  "fn_name credx_set_default_logger = ''credx_set_default_logger''"
| "fn_name credx_get_current_error = ''credx_get_current_error''"
| "fn_name (credx_object_free _) = ''credx_object_free''"
| "fn_name (credx_object_get_json _) = ''credx_object_get_json''"
| "fn_name (credx_string_free _) = ''credx_string_free''"
| "fn_name (credx_create_schema _ _ _ _ _) = ''credx_create_schema''"

text \<open>
  What a native call hands back: the integer \<open>ctypes\<close> returns, and what the
  out-parameters passed with \<open>byref\<close> hold after the call (NULL and 0, the values of a
  fresh \<open>lib_string()\<close> and \<open>ObjectHandle()\<close>, when the native side wrote nothing).
\<close>

record response =
  status :: int
  out_string :: c_char_p
  out_handle :: c_int64

datatype log_level = DEBUG | WARNING

text \<open>
  The observable effects, in the order they happen: every \<open>CDLL(path)\<close> with its
  outcome, every native call, every log record.
\<close>

datatype event =
    Dlopen string bool
  | Call native_call
  | Log log_level string

text \<open>
  The environment: \<open>sys.platform\<close>; \<open>os.path.join(os.path.dirname(__file__), f)\<close> as
  \<open>package_path f\<close>; whether \<open>CDLL(path)\<close> succeeds (it raises \<open>OSError\<close> otherwise);
  \<open>ctypes.util.find_library\<close>; the symbols the library exports; the native library's
  answer to a call, given the events so far; \<open>json.loads\<close> on a non-empty byte string;
  \<open>json.dumps\<close> on a list of strings; the enumeration's values.
\<close>

record env =
  platform :: string
  package_path :: "string \<Rightarrow> string"
  dlopen :: "string \<Rightarrow> bool"
  find_library :: "string \<Rightarrow> string option"
  exported :: "string \<Rightarrow> bool"
  native :: "event list \<Rightarrow> native_call \<Rightarrow> response"
  json_decode :: "bytes \<Rightarrow> py_exception + py_value"
  json_dumps :: "str list \<Rightarrow> str"
  wrapper_value :: int
  native_codes :: "int list"

text \<open>The module's global \<open>LIB\<close> and the events so far.\<close>

record world =
  LIB :: "CDLL option"
  trace :: "event list"

definition emit :: "event list \<Rightarrow> world \<Rightarrow> world" where
  "emit es w = w\<lparr>trace := trace w @ es\<rparr>"

subsection \<open>Operations on Python values used by the module\<close>

text \<open>Truth value of an object, as \<open>if msg\<close> tests it.\<close>

fun truthy :: "py_value \<Rightarrow> bool" where
  "truthy PyNone = False"
| "truthy (PyBool b) = b"
| "truthy (PyInt n) = (n \<noteq> 0)"
| "truthy (PyFloat (Finite m e)) = (m \<noteq> 0)"
| "truthy (PyFloat _) = True"
| "truthy (PyStr s) = (s \<noteq> [])"
| "truthy (PyList xs) = (xs \<noteq> [])"
| "truthy (PyDict kvs) = (kvs \<noteq> [])"

fun is_substring :: "str \<Rightarrow> str \<Rightarrow> bool" where
  "is_substring k [] = (k = [])"
| "is_substring k (c # cs) = (take (length k) (c # cs) = k \<or> is_substring k cs)"

text \<open>
  \<open>key in obj\<close> for a string key: a key of a dict, a substring of a string, an element
  of a list; \<open>TypeError\<close> for an object that is not a container.
\<close>

fun py_contains :: "str \<Rightarrow> py_value \<Rightarrow> py_exception + bool" where
  "py_contains k (PyDict kvs) = Inr (k \<in> set (map fst kvs))"
| "py_contains k (PyStr s) = Inr (is_substring k s)"
| "py_contains k (PyList xs) = Inr (PyStr k \<in> set xs)"
| "py_contains k _ = Inl TypeError"

text \<open>\<open>obj[key]\<close> for a string key.\<close>

fun py_getitem :: "py_value \<Rightarrow> str \<Rightarrow> py_exception + py_value" where
  "py_getitem (PyDict kvs) k = (case map_of kvs k of None \<Rightarrow> Inl KeyError | Some v \<Rightarrow> Inr v)"
| "py_getitem _ k = Inl TypeError"

text \<open>\<open>obj.get(key)\<close>: \<open>None\<close> for a missing key; only a dict has the method.\<close>

fun py_get :: "py_value \<Rightarrow> str \<Rightarrow> py_exception + py_value" where
  "py_get (PyDict kvs) k = (case map_of kvs k of None \<Rightarrow> Inr PyNone | Some v \<Rightarrow> Inr v)"
| "py_get _ k = Inl AttributeError"

text \<open>
  The integer an object compares equal to, if any: the enumeration looks a value up by
  equality, so \<open>True\<close> and \<open>1.0\<close> find the member \<open>1\<close>.
\<close>

fun int_equal :: "py_value \<Rightarrow> int option" where
  "int_equal (PyInt n) = Some n"
| "int_equal (PyBool b) = Some (if b then 1 else 0)"
| "int_equal (PyFloat (Finite m e)) =
     (if 0 \<le> e then Some (m * 2 ^ nat e)
      else if m mod 2 ^ nat (- e) = 0 then Some (m div 2 ^ nat (- e))
      else None)"
| "int_equal _ = None"

text \<open>
  Modelled from the spec: \<open>CredxErrorCode(v)\<close>, the member whose value equals \<open>v\<close>. The
  enumeration is closed, so any other \<open>v\<close> raises \<open>ValueError\<close>, as every Python
  enumeration does.
\<close>

definition CredxErrorCode_call :: "env \<Rightarrow> py_value \<Rightarrow> py_exception + CredxErrorCode" where
  "CredxErrorCode_call E v =
     (case int_equal v of
        None \<Rightarrow> Inl ValueError
      | Some n \<Rightarrow>
          if n = wrapper_value E then Inr WRAPPER
          else if n \<in> set (native_codes E) then Inr (Native n)
          else Inl ValueError)"

text \<open>
  \<open>json.loads(v)\<close>: \<open>TypeError\<close> when \<open>v\<close> is \<open>None\<close>, \<open>JSONDecodeError\<close> on the empty
  byte string, and the environment's decoder on any other input.
\<close>

definition json_loads :: "env \<Rightarrow> bytes option \<Rightarrow> py_exception + py_value" where
  "json_loads E v =
     (case v of
        None \<Rightarrow> Inl TypeError
      | Some bs \<Rightarrow> if bs = [] then Inl JSONDecodeError else json_decode E bs)"

text \<open>\<open>p.value\<close> of a \<open>c_char_p\<close>: \<open>None\<close> for NULL, else the bytes before the first NUL.\<close>

definition c_char_p_value :: "c_char_p \<Rightarrow> bytes option" where
  "c_char_p_value p = map_option (takeWhile (\<lambda>b. b \<noteq> 0)) p"

subsection \<open>Loading the library\<close>

text \<open>
  \<open>_load_library\<close>: the package directory first, then the system's search. The file
  name comes from the two platform tables, read with \<open>dict.get\<close> and a default, so the
  \<open>KeyError\<close> handler of the source is never entered. A failure ends in a \<open>CredxError\<close>
  with the wrapper's code.
\<close>

definition loading_error :: "string \<Rightarrow> py_exception" where
  "loading_error lib_name =
     Raised (CredxError WRAPPER (PyStr (lit (''Error loading library: '' @ lib_name))) PyNone)"

definition load_library :: "env \<Rightarrow> string \<Rightarrow> world \<Rightarrow> (py_exception + CDLL) \<times> world" where
  "load_library E lib_name w =
     (let os_name = platform E;
          lib_prefix = (if os_name = ''win32'' then [] else ''lib'');
          lib_suffix = (if os_name = ''darwin'' then ''.dylib''
                        else if os_name = ''win32'' then ''.dll'' else ''.so'');
          lib_path = package_path E (lib_prefix @ lib_name @ lib_suffix)
      in if dlopen E lib_path then (Inr (CDLL lib_path), emit [Dlopen lib_path True] w)
         else
           (let w1 = emit [Dlopen lib_path False,
                           Log WARNING ''Library not loaded from python package''] w
            in case find_library E lib_name of
                 None \<Rightarrow> (Inl (loading_error lib_name), w1)
               | Some p \<Rightarrow>
                   if p = [] then (Inl (loading_error lib_name), w1)
                   else if dlopen E p then (Inr (CDLL p), emit [Dlopen p True] w1)
                   else (Inl (loading_error lib_name), emit [Dlopen p False] w1)))"

subsection \<open>Decoding the native library's last error\<close>

definition unknown_error :: CredxError where
  "unknown_error = CredxError WRAPPER (PyStr (lit ''Unknown error'')) PyNone"

text \<open>The test \<open>msg and "message" in msg and "code" in msg\<close>, left to right.\<close>

definition msg_has_fields :: "py_value \<Rightarrow> py_exception + bool" where
  "msg_has_fields msg =
     (if \<not> truthy msg then Inr False
      else
        (case py_contains (lit ''message'') msg of
           Inl e \<Rightarrow> Inl e
         | Inr has_message \<Rightarrow>
             if \<not> has_message then Inr False else py_contains (lit ''code'') msg))"

text \<open>
  \<open>CredxError(CredxErrorCode(msg["code"]), msg["message"], msg.get("extra"))\<close>, the
  arguments evaluated left to right.
\<close>

definition error_of_msg :: "env \<Rightarrow> py_value \<Rightarrow> py_exception + CredxError" where
  "error_of_msg E msg =
     (case py_getitem msg (lit ''code'') of
        Inl e \<Rightarrow> Inl e
      | Inr c \<Rightarrow>
          (case CredxErrorCode_call E c of
             Inl e \<Rightarrow> Inl e
           | Inr ec \<Rightarrow>
               (case py_getitem msg (lit ''message'') of
                  Inl e \<Rightarrow> Inl e
                | Inr m \<Rightarrow>
                    (case py_get msg (lit ''extra'') of
                       Inl e \<Rightarrow> Inl e
                     | Inr x \<Rightarrow> Inr (CredxError ec m x)))))"

text \<open>
  The body of \<open>get_current_error\<close> after the native call (lines 138 to 150), given the
  call's response: the value returned or the exception raised, and the log records
  written on the way. Only \<open>json.JSONDecodeError\<close> is caught; it leaves \<open>msg = None\<close>.
\<close>

definition decode_current_error ::
  "env \<Rightarrow> bool \<Rightarrow> response \<Rightarrow> (py_exception + CredxError option) \<times> event list" where
  "decode_current_error E expect r =
     (if status r = 0 then
        (let (loaded, logs) =
               (case json_loads E (c_char_p_value (out_string r)) of
                  Inl e \<Rightarrow>
                    if e = JSONDecodeError
                    then (Inr PyNone,
                          [Log WARNING ''JSON decode error for credx_get_current_error''])
                    else (Inl e, [])
                | Inr v \<Rightarrow> (Inr v, []))
         in case loaded of
              Inl e \<Rightarrow> (Inl e, logs)
            | Inr msg \<Rightarrow>
                (case msg_has_fields msg of
                   Inl e \<Rightarrow> (Inl e, logs)
                 | Inr has_fields \<Rightarrow>
                     if has_fields then
                       (case error_of_msg E msg of
                          Inl e \<Rightarrow> (Inl e, logs)
                        | Inr err \<Rightarrow> (Inr (Some err), logs))
                     else if \<not> expect then (Inr None, logs)
                     else (Inr (Some unknown_error), logs)))
      else (Inr (Some unknown_error), []))"

subsection \<open>The library singleton, the call dispatcher and the error channel\<close>

text \<open>
  The four functions call each other as in the source: \<open>get_library\<close> initialises the
  logger through \<open>do_call\<close>, which asks \<open>get_library\<close> for the library and
  \<open>get_current_error\<close> for the error; \<open>get_current_error\<close> owns the local
  \<open>err_json\<close>, whose \<open>__del__\<close> (here \<open>lib_string_del\<close>) asks \<open>get_library\<close> again.

  An exception is \<open>Inl\<close>. \<open>getattr\<close> on the library raises \<open>AttributeError\<close> for a
  symbol it does not export. \<open>do_call\<close> returns nothing in the source; the model returns
  the response so that a caller can read its out-parameters. \<open>raise None\<close> is a
  \<open>TypeError\<close>. When \<open>get_current_error\<close> returns, the last reference to \<open>err_json\<close>
  goes and its \<open>__del__\<close> runs, an exception of which the runtime ignores; when it
  raises, the traceback keeps the frame and its locals alive, so the release is not part
  of the call.

  \<open>get_library\<close> ends with \<open>return LIB\<close>, a read of the global. The global was assigned
  two statements before and nothing in the module resets it, so the read finds the
  library (\<open>get_library_first\<close> below); the branch for a global that is still \<open>None\<close>,
  where the source would hand \<open>None\<close> to its caller, is there for totality and is never
  taken.
\<close>

function get_library :: "env \<Rightarrow> world \<Rightarrow> (py_exception + CDLL) \<times> world"
  and do_call :: "env \<Rightarrow> native_call \<Rightarrow> world \<Rightarrow> (py_exception + response) \<times> world"
  and get_current_error ::
    "env \<Rightarrow> bool \<Rightarrow> world \<Rightarrow> (py_exception + CredxError option) \<times> world"
  and lib_string_del :: "env \<Rightarrow> lib_string \<Rightarrow> world \<Rightarrow> (py_exception + unit) \<times> world"
where
  "get_library E w =
     (case LIB w of
        Some lib \<Rightarrow> (Inr lib, w)
      | None \<Rightarrow>
          (case load_library E ''indy_credx'' w of
             (Inl e, w1) \<Rightarrow> (Inl e, w1)
           | (Inr lib, w1) \<Rightarrow>
               (case do_call E credx_set_default_logger (w1\<lparr>LIB := Some lib\<rparr>) of
                  (Inl e, w2) \<Rightarrow> (Inl e, w2)
                | (Inr _, w2) \<Rightarrow>
                    (case LIB w2 of
                       Some l \<Rightarrow> (Inr l, w2)
                     | None \<Rightarrow> (Inl TypeError, w2)))))"
| "do_call E nc w =
     (case get_library E w of
        (Inl e, w1) \<Rightarrow> (Inl e, w1)
      | (Inr lib, w1) \<Rightarrow>
          if \<not> exported E (fn_name nc) then (Inl AttributeError, w1)
          else
            (let r = native E (trace w1) nc;
                 w2 = emit [Call nc] w1
             in if status r \<noteq> 0 then
                  (case get_current_error E True w2 of
                     (Inl e, w3) \<Rightarrow> (Inl e, w3)
                   | (Inr None, w3) \<Rightarrow> (Inl TypeError, w3)
                   | (Inr (Some err), w3) \<Rightarrow> (Inl (Raised err), w3))
                else (Inr r, w2)))"
| "get_current_error E expect w =
     (case get_library E w of
        (Inl e, w1) \<Rightarrow> (Inl e, w1)
      | (Inr lib, w1) \<Rightarrow>
          if \<not> exported E ''credx_get_current_error'' then (Inl AttributeError, w1)
          else
            (let r = native E (trace w1) credx_get_current_error;
                 err_json = out_string r;
                 w2 = emit (Call credx_get_current_error # snd (decode_current_error E expect r)) w1
             in case fst (decode_current_error E expect r) of
                  Inl e \<Rightarrow> (Inl e, w2)
                | Inr res \<Rightarrow>
                    (case lib_string_del E err_json w2 of (_, w3) \<Rightarrow> (Inr res, w3))))"
| "lib_string_del E self w =
     (case get_library E w of
        (Inl e, w1) \<Rightarrow> (Inl e, w1)
      | (Inr lib, w1) \<Rightarrow>
          if \<not> exported E ''credx_string_free'' then (Inl AttributeError, w1)
          else (Inr (), emit [Call (credx_string_free self)] w1))"
  by pat_completeness auto
termination
proof (relation "measure (\<lambda>x. case x of
            Inl (Inl (E, w)) \<Rightarrow> (if LIB w = None then 4 else 0)
          | Inl (Inr (E, nc, w)) \<Rightarrow> (if LIB w = None then 4 else 0) + 3
          | Inr (Inl (E, b, w)) \<Rightarrow> (if LIB w = None then 4 else 0) + 2
          | Inr (Inr (E, s, w)) \<Rightarrow> (if LIB w = None then 4 else 0) + 1)",
    goal_cases)
  case 1
  show ?case by simp
next
  case 2
  then show ?case by simp
next
  case 3
  show ?case by simp
next
  case 4
  then show ?case by (auto simp: get_library.psimps emit_def)
next
  case 5
  show ?case by simp
next
  case 6
  then show ?case by (auto simp: get_library.psimps emit_def)
next
  case 7
  show ?case by simp
qed

declare get_library.simps [simp del]
declare do_call.simps [simp del]
declare get_current_error.simps [simp del]
declare lib_string_del.simps [simp del]

subsection \<open>Handles\<close>

text \<open>
  \<open>object_free\<close> and \<open>ObjectHandle.__del__\<close>. The status the native call returns is
  dropped.
\<close>

definition object_free :: "env \<Rightarrow> ObjectHandle \<Rightarrow> world \<Rightarrow> (py_exception + unit) \<times> world" where
  "object_free E handle w =
     (case get_library E w of
        (Inl e, w1) \<Rightarrow> (Inl e, w1)
      | (Inr lib, w1) \<Rightarrow>
          if \<not> exported E ''credx_object_free'' then (Inl AttributeError, w1)
          else (Inr (), emit [Call (credx_object_free handle)] w1))"

definition ObjectHandle_del :: "env \<Rightarrow> ObjectHandle \<Rightarrow> world \<Rightarrow> (py_exception + unit) \<times> world" where
  "ObjectHandle_del E self w = object_free E self w"

text \<open>
  The runtime's part: when the last reference to an instance goes, its \<open>__del__\<close> runs
  once, and an exception it raises is reported on stderr and ignored. \<open>release_handles\<close>
  ends the lifetime of several \<open>ObjectHandle\<close> instances, one after the other; two
  instances may carry the same value.
\<close>

definition finalize :: "(world \<Rightarrow> (py_exception + unit) \<times> world) \<Rightarrow> world \<Rightarrow> world" where
  "finalize del w = snd (del w)"

fun release_handles :: "env \<Rightarrow> ObjectHandle list \<Rightarrow> world \<Rightarrow> world" where
  "release_handles E [] w = w"
| "release_handles E (h # hs) w = release_handles E hs (finalize (ObjectHandle_del E h) w)"

subsection \<open>Strings across the boundary\<close>

text \<open>
  \<open>str.encode("utf-8")\<close>, one code point at a time. A surrogate (U+D800 to U+DFFF)
  raises \<open>UnicodeEncodeError\<close>; a Python string holds no code point above U+10FFFF, and
  the model gives the same error there.
\<close>

definition encode_code_point :: "nat \<Rightarrow> py_exception + bytes" where
  "encode_code_point c =
     (if c < 0x80 then Inr [c]
      else if c < 0x800 then Inr [0xC0 + c div 0x40, 0x80 + c mod 0x40]
      else if 0xD800 \<le> c \<and> c \<le> 0xDFFF then Inl UnicodeEncodeError
      else if c < 0x10000 then
        Inr [0xE0 + c div 0x1000, 0x80 + (c div 0x40) mod 0x40, 0x80 + c mod 0x40]
      else if c < 0x110000 then
        Inr [0xF0 + c div 0x40000, 0x80 + (c div 0x1000) mod 0x40,
             0x80 + (c div 0x40) mod 0x40, 0x80 + c mod 0x40]
      else Inl UnicodeEncodeError)"

fun str_encode :: "str \<Rightarrow> py_exception + bytes" where
  "str_encode [] = Inr []"
| "str_encode (c # cs) =
     (case encode_code_point c of
        Inl e \<Rightarrow> Inl e
      | Inr bs \<Rightarrow> (case str_encode cs of Inl e \<Rightarrow> Inl e | Inr rest \<Rightarrow> Inr (bs @ rest)))"

text \<open>
  \<open>bytes.decode("utf-8")\<close>, strict: a continuation byte is 0x80 to 0xBF; an overlong
  form, a surrogate, a value above U+10FFFF and a truncated sequence raise
  \<open>UnicodeDecodeError\<close>.
\<close>

definition is_continuation :: "nat \<Rightarrow> bool" where
  "is_continuation b = (0x80 \<le> b \<and> b \<le> 0xBF)"

definition decoded :: "nat \<Rightarrow> py_exception + str \<Rightarrow> py_exception + str" where
  "decoded c rest = (case rest of Inl e \<Rightarrow> Inl e | Inr s \<Rightarrow> Inr (c # s))"

fun bytes_decode :: "bytes \<Rightarrow> py_exception + str" where
  "bytes_decode [] = Inr []"
| "bytes_decode (b0 # bs) =
     (if b0 < 0x80 then decoded b0 (bytes_decode bs)
      else if 0xC2 \<le> b0 \<and> b0 \<le> 0xDF then
        (case bs of
           b1 # r \<Rightarrow>
             if is_continuation b1
             then decoded ((b0 - 0xC0) * 0x40 + (b1 - 0x80)) (bytes_decode r)
             else Inl UnicodeDecodeError
         | _ \<Rightarrow> Inl UnicodeDecodeError)
      else if 0xE0 \<le> b0 \<and> b0 \<le> 0xEF then
        (case bs of
           b1 # b2 # r \<Rightarrow>
             (let c = (b0 - 0xE0) * 0x1000 + (b1 - 0x80) * 0x40 + (b2 - 0x80)
              in if is_continuation b1 \<and> is_continuation b2 \<and> 0x800 \<le> c
                    \<and> \<not> (0xD800 \<le> c \<and> c \<le> 0xDFFF)
                 then decoded c (bytes_decode r)
                 else Inl UnicodeDecodeError)
         | _ \<Rightarrow> Inl UnicodeDecodeError)
      else if 0xF0 \<le> b0 \<and> b0 \<le> 0xF4 then
        (case bs of
           b1 # b2 # b3 # r \<Rightarrow>
             (let c = (b0 - 0xF0) * 0x40000 + (b1 - 0x80) * 0x1000
                      + (b2 - 0x80) * 0x40 + (b3 - 0x80)
              in if is_continuation b1 \<and> is_continuation b2 \<and> is_continuation b3
                    \<and> 0x10000 \<le> c \<and> c < 0x110000
                 then decoded c (bytes_decode r)
                 else Inl UnicodeDecodeError)
         | _ \<Rightarrow> Inl UnicodeDecodeError)
      else Inl UnicodeDecodeError)"

text \<open>
  \<open>decode_str\<close>: the parameter is annotated \<open>c_char_p\<close>, but the body calls \<open>decode\<close>
  on it, which a \<open>bytes\<close> object has and a \<open>c_char_p\<close> has not: the argument is the byte
  string read through the pointer.
\<close>

definition decode_str :: "bytes \<Rightarrow> py_exception + str" where
  "decode_str v = bytes_decode v"

text \<open>
  \<open>encode_str\<close>: \<open>None\<close> stays \<open>None\<close> (a NULL argument), a \<open>str\<close> is encoded, anything
  else goes to \<open>c_char_p\<close> as it is, which takes \<open>bytes\<close> and raises \<open>TypeError\<close> for a
  \<open>memoryview\<close>.
\<close>

datatype str_arg = Str str | Bytes bytes | Memoryview bytes

definition encode_str :: "str_arg option \<Rightarrow> py_exception + c_char_p" where
  "encode_str arg =
     (case arg of
        None \<Rightarrow> Inr None
      | Some (Str s) \<Rightarrow> (case str_encode s of Inl e \<Rightarrow> Inl e | Inr bs \<Rightarrow> Inr (Some bs))
      | Some (Bytes bs) \<Rightarrow> Inr (Some bs)
      | Some (Memoryview bs) \<Rightarrow> Inl TypeError)"

subsection \<open>Constructors\<close>

text \<open>\<open>c_int64(n)\<close> keeps the low 64 bits of \<open>n\<close>; \<open>sint\<close> reads its \<open>value\<close>.\<close>

definition c_int64 :: "int \<Rightarrow> c_int64" where
  "c_int64 n = word_of_int n"

text \<open>
  \<open>create_schema\<close>: the arguments are marshalled left to right, \<open>seq_no or -1\<close> is \<open>-1\<close>
  for \<open>None\<close> and for \<open>0\<close>, and the handle the native side wrote is returned. When
  \<open>do_call\<close> raises, the local \<open>result\<close> lives on in the traceback's frame; its release
  is not part of the call.
\<close>

definition create_schema ::
  "env \<Rightarrow> str \<Rightarrow> str \<Rightarrow> str \<Rightarrow> str list \<Rightarrow> int option \<Rightarrow> world
     \<Rightarrow> (py_exception + ObjectHandle) \<times> world" where
  "create_schema E origin_did name version attr_names seq_no w =
     (case encode_str (Some (Str origin_did)) of
        Inl e \<Rightarrow> (Inl e, w)
      | Inr a1 \<Rightarrow>
     (case encode_str (Some (Str name)) of
        Inl e \<Rightarrow> (Inl e, w)
      | Inr a2 \<Rightarrow>
     (case encode_str (Some (Str version)) of
        Inl e \<Rightarrow> (Inl e, w)
      | Inr a3 \<Rightarrow>
     (case encode_str (Some (Str (json_dumps E attr_names))) of
        Inl e \<Rightarrow> (Inl e, w)
      | Inr a4 \<Rightarrow>
          (let a5 = c_int64 (case seq_no of None \<Rightarrow> - 1 | Some n \<Rightarrow> if n = 0 then - 1 else n)
           in case do_call E (credx_create_schema a1 a2 a3 a4 a5) w of
                (Inl e, w1) \<Rightarrow> (Inl e, w1)
              | (Inr r, w1) \<Rightarrow> (Inr (out_handle r), w1))))))"

subsection \<open>Observations on a run\<close>

text \<open>A caller that asks for the library \<open>n\<close> times in a row.\<close>

fun get_library_times :: "env \<Rightarrow> nat \<Rightarrow> world \<Rightarrow> (py_exception + CDLL) list \<times> world" where
  "get_library_times E 0 w = ([], w)"
| "get_library_times E (Suc n) w =
     (case get_library E w of
        (r, w1) \<Rightarrow> (case get_library_times E n w1 of (rs, w2) \<Rightarrow> (r # rs, w2)))"

text \<open>How often a shared object was opened, and how often a native call was made.\<close>

fun opened :: "event \<Rightarrow> bool" where
  "opened (Dlopen p ok) = ok"
| "opened _ = False"

definition loads :: "world \<Rightarrow> nat" where
  "loads w = length (filter opened (trace w))"

definition calls :: "native_call \<Rightarrow> world \<Rightarrow> nat" where
  "calls nc w = count_list (trace w) (Call nc)"

text \<open>A Python string: code points up to U+10FFFF, none of them a surrogate.\<close>

definition scalar_value :: "nat \<Rightarrow> bool" where
  "scalar_value c = (c < 0x110000 \<and> \<not> (0xD800 \<le> c \<and> c \<le> 0xDFFF))"

subsection \<open>Example environments\<close>

text \<open>
  A Linux installation whose package directory holds the library, with the error codes
  0 to 8 and 99 for the wrapper; the native behaviour and the JSON decoder are given.
\<close>

definition example_env ::
  "(event list \<Rightarrow> native_call \<Rightarrow> response) \<Rightarrow> (bytes \<Rightarrow> py_exception + py_value) \<Rightarrow> env" where
  "example_env behaviour dec =
     \<lparr>platform = ''linux'',
      package_path = (\<lambda>f. ''/site-packages/indy_credx/'' @ f),
      dlopen = (\<lambda>p. True),
      find_library = (\<lambda>n. None),
      exported = (\<lambda>s. True),
      native = behaviour,
      json_decode = dec,
      json_dumps = (\<lambda>xs. lit ''[]''),
      wrapper_value = 99,
      native_codes = [0, 1, 2, 3, 4, 5, 6, 7, 8]\<rparr>"

definition no_json :: "bytes \<Rightarrow> py_exception + py_value" where
  "no_json bs = Inl JSONDecodeError"

text \<open>Every call succeeds and writes nothing.\<close>

definition native_ok :: "event list \<Rightarrow> native_call \<Rightarrow> response" where
  "native_ok tr nc = \<lparr>status = 0, out_string = None, out_handle = 0\<rparr>"

text \<open>The error fetch itself fails; every other call succeeds.\<close>

definition native_fetch_fails :: "event list \<Rightarrow> native_call \<Rightarrow> response" where
  "native_fetch_fails tr nc =
     \<lparr>status = (if nc = credx_get_current_error then 1 else 0),
      out_string = None, out_handle = 0\<rparr>"

text \<open>
  Every call but the logger's and the error fetch fails; the error fetch succeeds and
  hands out a payload.
\<close>

definition native_rejects :: "bytes \<Rightarrow> event list \<Rightarrow> native_call \<Rightarrow> response" where
  "native_rejects payload tr nc =
     (if nc = credx_get_current_error
      then \<lparr>status = 0, out_string = Some payload, out_handle = 0\<rparr>
      else \<lparr>status = (if nc = credx_set_default_logger then 0 else 1),
            out_string = None, out_handle = 0\<rparr>)"

text \<open>
  Every call but the logger's and the error fetch fails; the error fetch succeeds and
  writes nothing, so the out pointer stays NULL.
\<close>

definition native_rejects_silently :: "event list \<Rightarrow> native_call \<Rightarrow> response" where
  "native_rejects_silently tr nc =
     \<lparr>status = (if nc = credx_set_default_logger \<or> nc = credx_get_current_error then 0 else 1),
      out_string = None, out_handle = 0\<rparr>"

text \<open>A decoder that reads every payload as the given object.\<close>

definition reads_as :: "py_value \<Rightarrow> bytes \<Rightarrow> py_exception + py_value" where
  "reads_as v bs = Inr v"

definition fresh :: world where
  "fresh = \<lparr>LIB = None, trace = []\<rparr>"

definition loaded :: world where
  "loaded = \<lparr>LIB = Some (CDLL ''/site-packages/indy_credx/libindy_credx.so''), trace = []\<rparr>"

section \<open>Auxiliary facts\<close>

subsection \<open>The state and the trace\<close>

lemma LIB_emit: "LIB (emit es w) = LIB w"
  by (simp add: emit_def)

lemma trace_emit: "trace (emit es w) = trace w @ es"
  by (simp add: emit_def)

lemma calls_emit: "calls nc (emit es w) = calls nc w + count_list es (Call nc)"
  by (simp add: calls_def trace_emit)

subsection \<open>The library singleton\<close>

text \<open>
  With the library loaded, \<open>get_library\<close> returns it and touches nothing, and
  \<open>do_call\<close> is the native call followed, on a non-zero status, by the error lookup.
\<close>

lemma get_library_loaded: "LIB w = Some lib \<Longrightarrow> get_library E w = (Inr lib, w)"
  by (simp add: get_library.simps)

lemma load_library_LIB: "load_library E n w = (r, w1) \<Longrightarrow> LIB w1 = LIB w"
  by (auto simp: load_library_def Let_def LIB_emit split: if_splits option.splits)

lemma load_library_loads:
  "load_library E n w = (Inr lib, w1) \<Longrightarrow>
     \<exists>es. trace w1 = trace w @ es \<and> length (filter opened es) = 1
        \<and> (\<forall>nc. Call nc \<notin> set es)"
  by (auto simp: load_library_def Let_def trace_emit split: if_splits option.splits)

lemma do_call_loaded:
  "LIB w = Some lib \<Longrightarrow>
   do_call E nc w =
     (if \<not> exported E (fn_name nc) then (Inl AttributeError, w)
      else if status (native E (trace w) nc) \<noteq> 0 then
        (case get_current_error E True (emit [Call nc] w) of
           (Inl e, w3) \<Rightarrow> (Inl e, w3)
         | (Inr None, w3) \<Rightarrow> (Inl TypeError, w3)
         | (Inr (Some err), w3) \<Rightarrow> (Inl (Raised err), w3))
      else (Inr (native E (trace w) nc), emit [Call nc] w))"
  by (simp add: do_call.simps [of E nc w] get_library_loaded Let_def)

lemma do_call_loaded_ok:
  assumes "LIB w = Some lib" and "do_call E nc w = (Inr r, w1)"
  shows "w1 = emit [Call nc] w \<and> r = native E (trace w) nc \<and> status r = 0"
proof -
  obtain x w3 where g: "get_current_error E True (emit [Call nc] w) = (x, w3)"
    by (cases "get_current_error E True (emit [Call nc] w)")
  show ?thesis
    using assms(2) unfolding do_call_loaded [OF assms(1)] g
    by (cases x; cases "projr x") (auto split: if_splits)
qed

text \<open>
  A first call that succeeds has loaded the library, set \<open>LIB\<close> and registered the
  logger, in this order; whoever calls \<open>get_library\<close> first continues in the state it
  leaves.
\<close>

lemma get_library_first:
  assumes "LIB w = None" and "get_library E w = (Inr lib, w1)"
  shows "\<exists>w0. load_library E ''indy_credx'' w = (Inr lib, w0)
           \<and> w1 = emit [Call credx_set_default_logger] (w0\<lparr>LIB := Some lib\<rparr>)"
proof -
  obtain x w0 where ld: "load_library E ''indy_credx'' w = (x, w0)"
    by (cases "load_library E ''indy_credx'' w")
  show ?thesis
  proof (cases x)
    case (Inl e)
    with assms ld show ?thesis by (simp add: get_library.simps [of E w])
  next
    case (Inr l)
    obtain y w2 where dc: "do_call E credx_set_default_logger (w0\<lparr>LIB := Some l\<rparr>) = (y, w2)"
      by (cases "do_call E credx_set_default_logger (w0\<lparr>LIB := Some l\<rparr>)")
    show ?thesis
    proof (cases y)
      case (Inl e)
      with assms ld Inr dc show ?thesis by (simp add: get_library.simps [of E w])
    next
      case r: (Inr r)
      have L: "LIB (w0\<lparr>LIB := Some l\<rparr>) = Some l" by simp
      from do_call_loaded_ok [OF L dc [unfolded r]]
      have w2: "w2 = emit [Call credx_set_default_logger] (w0\<lparr>LIB := Some l\<rparr>)" by simp
      then have "LIB w2 = Some l" by (simp add: LIB_emit)
      with assms ld Inr dc r have "l = lib" "w1 = w2"
        by (simp_all add: get_library.simps [of E w])
      with ld Inr w2 show ?thesis by simp
    qed
  qed
qed

lemma get_library_first_ok:
  assumes "LIB w = None"
    and "load_library E ''indy_credx'' w = (Inr lib, w0)"
    and "exported E ''credx_set_default_logger''"
    and "status (native E (trace w0) credx_set_default_logger) = 0"
  shows "get_library E w = (Inr lib, emit [Call credx_set_default_logger] (w0\<lparr>LIB := Some lib\<rparr>))"
proof -
  have L: "LIB (w0\<lparr>LIB := Some lib\<rparr>) = Some lib" by simp
  have "do_call E credx_set_default_logger (w0\<lparr>LIB := Some lib\<rparr>) =
          (Inr (native E (trace w0) credx_set_default_logger),
           emit [Call credx_set_default_logger] (w0\<lparr>LIB := Some lib\<rparr>))"
    using assms(3,4) by (simp add: do_call_loaded [OF L])
  then show ?thesis
    using assms(1,2) by (simp add: get_library.simps [of E w] LIB_emit)
qed

lemma get_library_LIB:
  assumes "get_library E w = (Inr lib, w1)"
  shows "LIB w1 = Some lib"
proof (cases "LIB w")
  case None
  from get_library_first [OF None assms] show ?thesis by (auto simp: LIB_emit)
next
  case (Some l)
  with assms show ?thesis by (simp add: get_library_loaded)
qed

lemma get_library_times_loaded:
  "LIB w = Some lib \<Longrightarrow> get_library_times E n w = (replicate n (Inr lib), w)"
  by (induction n) (simp_all add: get_library_loaded)

lemma get_library_calls:
  assumes "get_library E w = (Inr lib, w1)" and "nc \<noteq> credx_set_default_logger"
  shows "calls nc w1 = calls nc w"
proof (cases "LIB w")
  case None
  from get_library_first [OF None assms(1)] obtain w0 where
    ld: "load_library E ''indy_credx'' w = (Inr lib, w0)" and
    w1: "w1 = emit [Call credx_set_default_logger] (w0\<lparr>LIB := Some lib\<rparr>)"
    by blast
  from load_library_loads [OF ld] obtain es where
    es: "trace w0 = trace w @ es" "\<forall>nc. Call nc \<notin> set es"
    by blast
  have "count_list es (Call nc) = 0"
    using es(2) by (simp add: count_list_0_iff)
  then show ?thesis
    using es(1) w1 assms(2) by (simp add: calls_def trace_emit)
next
  case (Some l)
  with assms(1) show ?thesis by (simp add: get_library_loaded)
qed

lemma get_current_error_via:
  assumes "get_library E w = (Inr lib, w1)"
  shows "get_current_error E expect w = get_current_error E expect w1"
  by (simp add: get_current_error.simps [of E expect w] get_current_error.simps [of E expect w1]
      assms get_library_loaded [OF get_library_LIB [OF assms]])

lemma do_call_via:
  assumes "get_library E w = (Inr lib, w1)"
  shows "do_call E nc w = do_call E nc w1"
  by (simp add: do_call.simps [of E nc w] do_call.simps [of E nc w1]
      assms get_library_loaded [OF get_library_LIB [OF assms]])

lemma lib_string_del_via:
  assumes "get_library E w = (Inr lib, w1)"
  shows "lib_string_del E s w = lib_string_del E s w1"
  by (simp add: lib_string_del.simps [of E s w] lib_string_del.simps [of E s w1]
      assms get_library_loaded [OF get_library_LIB [OF assms]])

subsection \<open>Releasing strings and handles\<close>

lemma lib_string_del_loaded:
  "LIB w = Some lib \<Longrightarrow>
   lib_string_del E s w =
     (if \<not> exported E ''credx_string_free'' then (Inl AttributeError, w)
      else (Inr (), emit [Call (credx_string_free s)] w))"
  by (simp add: lib_string_del.simps [of E s w] get_library_loaded)

lemma object_free_loaded:
  "LIB w = Some lib \<Longrightarrow>
   object_free E h w =
     (if \<not> exported E ''credx_object_free'' then (Inl AttributeError, w)
      else (Inr (), emit [Call (credx_object_free h)] w))"
  by (simp add: object_free_def get_library_loaded)

lemma release_handles_calls:
  assumes "exported E ''credx_object_free''"
  shows "LIB w = Some lib \<Longrightarrow>
         calls (credx_object_free v) (release_handles E hs w) =
         calls (credx_object_free v) w + count_list hs v"
proof (induction hs arbitrary: w)
  case Nil
  show ?case by simp
next
  case (Cons h hs)
  let ?w = "emit [Call (credx_object_free h)] w"
  have step: "finalize (ObjectHandle_del E h) w = ?w"
    using assms Cons.prems by (simp add: finalize_def ObjectHandle_del_def object_free_loaded)
  have "LIB ?w = Some lib"
    using Cons.prems by (simp add: LIB_emit)
  from Cons.IH [OF this] show ?case
    by (simp add: step calls_emit)
qed

subsection \<open>The error channel\<close>

lemma get_current_error_loaded:
  assumes "LIB w = Some lib" and "exported E ''credx_get_current_error''"
  shows "get_current_error E expect w =
     (let r = native E (trace w) credx_get_current_error;
          d = decode_current_error E expect r;
          w2 = emit (Call credx_get_current_error # snd d) w
      in case fst d of
           Inl e \<Rightarrow> (Inl e, w2)
         | Inr res \<Rightarrow>
             (Inr res, if exported E ''credx_string_free''
                       then emit [Call (credx_string_free (out_string r))] w2 else w2))"
proof -
  have L: "\<And>es. LIB (emit es w) = Some lib"
    using assms(1) by (simp add: LIB_emit)
  show ?thesis
    using assms
    by (simp add: get_current_error.simps [of E expect w] get_library_loaded Let_def
        lib_string_del_loaded [OF L] split: sum.splits)
qed

lemma get_current_error_result:
  assumes "LIB w = Some lib" and "exported E ''credx_get_current_error''"
  shows "fst (get_current_error E expect w) =
         fst (decode_current_error E expect (native E (trace w) credx_get_current_error))"
  by (simp add: get_current_error_loaded [OF assms] Let_def split: sum.splits)

lemma get_current_error_trace:
  assumes "LIB w = Some lib" and "exported E ''credx_get_current_error''"
  shows "\<exists>rest. trace (snd (get_current_error E expect w)) =
           trace w @ Call credx_get_current_error # rest"
  by (simp add: get_current_error_loaded [OF assms] Let_def trace_emit split: sum.splits)

lemma get_current_error_extends:
  assumes "LIB w = Some lib"
  shows "\<exists>rest. trace (snd (get_current_error E b w)) = trace w @ rest"
proof (cases "exported E ''credx_get_current_error''")
  case True
  from get_current_error_trace [OF assms True] show ?thesis by blast
next
  case False
  then show ?thesis
    by (simp add: get_current_error.simps [of E b w] get_library_loaded [OF assms])
qed

lemma decode_current_error_failed:
  "status r \<noteq> 0 \<Longrightarrow> decode_current_error E expect r = (Inr (Some unknown_error), [])"
  by (simp add: decode_current_error_def)

lemma decode_current_error_expect:
  "fst (decode_current_error E True r) \<noteq> Inr None"
  by (simp add: decode_current_error_def Let_def split: sum.splits prod.splits)

lemma get_current_error_expect:
  assumes "LIB w = Some lib"
  shows "fst (get_current_error E True w) \<noteq> Inr None"
proof (cases "exported E ''credx_get_current_error''")
  case True
  show ?thesis
    by (simp add: get_current_error_result [OF assms True] decode_current_error_expect)
next
  case False
  then show ?thesis
    by (simp add: get_current_error.simps [of E True w] get_library_loaded [OF assms])
qed

lemma decode_current_error_null:
  "status r = 0 \<Longrightarrow> out_string r = None \<Longrightarrow> decode_current_error E expect r = (Inl TypeError, [])"
  by (simp add: decode_current_error_def json_loads_def c_char_p_value_def)

lemma decode_current_error_empty:
  "status r = 0 \<Longrightarrow> c_char_p_value (out_string r) = Some [] \<Longrightarrow>
   fst (decode_current_error E expect r) = Inr (if expect then Some unknown_error else None)"
  by (simp add: decode_current_error_def json_loads_def msg_has_fields_def)

lemma msg_has_fields_dict:
  "msg_has_fields (PyDict kvs) =
     Inr (lit ''message'' \<in> fst ` set kvs \<and> lit ''code'' \<in> fst ` set kvs)"
  by (auto simp: msg_has_fields_def)

lemma decode_current_error_lacking:
  assumes "status r = 0"
    and "json_loads E (c_char_p_value (out_string r)) = Inr (PyDict kvs)"
    and "lit ''message'' \<notin> fst ` set kvs \<or> lit ''code'' \<notin> fst ` set kvs"
  shows "fst (decode_current_error E expect r) = Inr (if expect then Some unknown_error else None)"
  using assms by (auto simp: decode_current_error_def msg_has_fields_dict)

lemma decode_current_error_not_member:
  assumes "status r = 0"
    and "json_loads E (c_char_p_value (out_string r)) = Inr (PyDict kvs)"
    and "lit ''message'' \<in> fst ` set kvs"
    and "map_of kvs (lit ''code'') = Some (PyInt n)"
    and "n \<noteq> wrapper_value E" and "n \<notin> set (native_codes E)"
  shows "fst (decode_current_error E expect r) = Inl ValueError"
proof -
  have "lit ''code'' \<in> fst ` set kvs"
    using assms(4) by (meson domI dom_map_of_conv_image_fst [THEN equalityD1, THEN subsetD])
  then have "msg_has_fields (PyDict kvs) = Inr True"
    using assms(3) by (simp add: msg_has_fields_dict)
  moreover have "error_of_msg E (PyDict kvs) = Inl ValueError"
    using assms(4,5,6) by (simp add: error_of_msg_def CredxErrorCode_call_def)
  ultimately show ?thesis
    using assms(1,2) by (simp add: decode_current_error_def)
qed

subsection \<open>The call dispatcher\<close>

lemma do_call_trace:
  assumes "get_library E w = (Inr lib, w1)" and "exported E (fn_name nc)"
  shows "\<exists>rest. trace (snd (do_call E nc w)) = trace w1 @ Call nc # rest"
proof -
  note L = get_library_LIB [OF assms(1)]
  have L2: "LIB (emit [Call nc] w1) = Some lib"
    using L by (simp add: LIB_emit)
  obtain x w3 where g: "get_current_error E True (emit [Call nc] w1) = (x, w3)"
    by (cases "get_current_error E True (emit [Call nc] w1)")
  from get_current_error_extends [OF L2, of E True] g
  obtain rest where r: "trace w3 = trace w1 @ Call nc # rest"
    by (auto simp: trace_emit)
  show ?thesis
  proof (cases "status (native E (trace w1) nc) = 0")
    case True
    then show ?thesis
      using assms(2) by (simp add: do_call_via [OF assms(1)] do_call_loaded [OF L] trace_emit)
  next
    case False
    then have "snd (do_call E nc w) = w3"
      using assms(2)
      by (simp add: do_call_via [OF assms(1)] do_call_loaded [OF L] g
          split: sum.splits option.splits)
    with r show ?thesis by simp
  qed
qed

subsection \<open>UTF-8 and machine integers\<close>

text \<open>
  A code point splits into groups of six bits, which the decoder puts together again.
\<close>

lemma reconstruct3: "(c::nat) div 4096 * 4096 + c div 64 mod 64 * 64 + c mod 64 = c"
proof -
  define q h m r where "q = c div 64" and "h = q div 64" and "m = q mod 64" and "r = c mod 64"
  have 1: "c = q * 64 + r" by (simp add: q_def r_def)
  have 2: "q = h * 64 + m" by (simp add: h_def m_def)
  have 3: "c div 4096 = h" by (simp add: h_def q_def div_mult2_eq)
  have "h * 4096 + m * 64 + r = c" using 1 2 by simp
  then show ?thesis
    unfolding 3 unfolding m_def r_def q_def .
qed

lemma reconstruct4:
  "(c::nat) div 262144 * 262144 + c div 4096 mod 64 * 4096 + c div 64 mod 64 * 64 + c mod 64 = c"
proof -
  define p h k where "p = c div 4096" and "h = p div 64" and "k = p mod 64"
  have 2: "p = h * 64 + k" by (simp add: h_def k_def)
  have 3: "c div 262144 = h" by (simp add: h_def p_def div_mult2_eq)
  have "h * 262144 + k * 4096 = p * 4096" using 2 by simp
  then have "c div 262144 * 262144 + c div 4096 mod 64 * 4096 = c div 4096 * 4096"
    unfolding 3 unfolding k_def p_def .
  then show ?thesis using reconstruct3 [of c] by simp
qed

lemma decode2:
  "2 \<le> h \<Longrightarrow> h < 32 \<Longrightarrow> l < 64 \<Longrightarrow>
   bytes_decode ((0xC0 + h) # (0x80 + l) # rest) = decoded (h * 0x40 + l) (bytes_decode rest)"
  by (simp add: is_continuation_def)

lemma decode3:
  "h < 16 \<Longrightarrow> m < 64 \<Longrightarrow> l < 64 \<Longrightarrow> 0x800 \<le> h * 0x1000 + m * 0x40 + l \<Longrightarrow>
   \<not> (0xD800 \<le> h * 0x1000 + m * 0x40 + l \<and> h * 0x1000 + m * 0x40 + l \<le> 0xDFFF) \<Longrightarrow>
   bytes_decode ((0xE0 + h) # (0x80 + m) # (0x80 + l) # rest) =
     decoded (h * 0x1000 + m * 0x40 + l) (bytes_decode rest)"
  by (simp add: is_continuation_def Let_def)

lemma decode4:
  "h < 5 \<Longrightarrow> k < 64 \<Longrightarrow> m < 64 \<Longrightarrow> l < 64 \<Longrightarrow>
   0x10000 \<le> h * 0x40000 + k * 0x1000 + m * 0x40 + l \<Longrightarrow>
   h * 0x40000 + k * 0x1000 + m * 0x40 + l < 0x110000 \<Longrightarrow>
   bytes_decode ((0xF0 + h) # (0x80 + k) # (0x80 + m) # (0x80 + l) # rest) =
     decoded (h * 0x40000 + k * 0x1000 + m * 0x40 + l) (bytes_decode rest)"
  by (simp add: is_continuation_def Let_def)

lemma decode_encoded_code_point:
  assumes "scalar_value c"
  shows "\<exists>bs. encode_code_point c = Inr bs
           \<and> (\<forall>rest. bytes_decode (bs @ rest) = decoded c (bytes_decode rest))
           \<and> (c \<noteq> 0 \<longrightarrow> 0 \<notin> set bs)"
proof -
  have ns: "\<not> (0xD800 \<le> c \<and> c \<le> 0xDFFF)" and lt: "c < 0x110000"
    using assms by (simp_all add: scalar_value_def)
  consider "c < 0x80" | "0x80 \<le> c" "c < 0x800" | "0x800 \<le> c" "c < 0x10000"
    | "0x10000 \<le> c" "c < 0x110000"
    using lt by linarith
  then show ?thesis
  proof cases
    case 1
    then show ?thesis by (simp add: encode_code_point_def)
  next
    case 2
    define h l where "h = c div 64" and "l = c mod 64"
    have c: "h * 64 + l = c" by (simp add: h_def l_def)
    have b: "2 \<le> h" "h < 32" "l < 64" using 2 by (auto simp: h_def l_def)
    have e: "encode_code_point c = Inr [0xC0 + h, 0x80 + l]"
      using 2 by (simp add: encode_code_point_def h_def l_def)
    have "\<forall>rest. bytes_decode ([0xC0 + h, 0x80 + l] @ rest) = decoded c (bytes_decode rest)"
      using decode2 [OF b] c by simp
    with e show ?thesis by simp
  next
    case 3
    define h m l where "h = c div 4096" and "m = c div 64 mod 64" and "l = c mod 64"
    have c: "h * 4096 + m * 64 + l = c"
      using reconstruct3 [of c] by (simp add: h_def m_def l_def)
    have b: "h < 16" "m < 64" "l < 64" using 3 by (auto simp: h_def m_def l_def)
    have e: "encode_code_point c = Inr [0xE0 + h, 0x80 + m, 0x80 + l]"
      using 3 ns by (simp add: encode_code_point_def h_def m_def l_def)
    have "\<forall>rest. bytes_decode ([0xE0 + h, 0x80 + m, 0x80 + l] @ rest) =
                  decoded c (bytes_decode rest)"
      using decode3 [OF b] c 3 ns by simp
    with e show ?thesis by simp
  next
    case 4
    define h k m l where "h = c div 262144" and "k = c div 4096 mod 64"
      and "m = c div 64 mod 64" and "l = c mod 64"
    have c: "h * 262144 + k * 4096 + m * 64 + l = c"
      using reconstruct4 [of c] by (simp add: h_def k_def m_def l_def)
    have b: "h < 5" "k < 64" "m < 64" "l < 64" using 4 by (auto simp: h_def k_def m_def l_def)
    have e: "encode_code_point c = Inr [0xF0 + h, 0x80 + k, 0x80 + m, 0x80 + l]"
      using 4 ns by (simp add: encode_code_point_def h_def k_def m_def l_def)
    have "\<forall>rest. bytes_decode ([0xF0 + h, 0x80 + k, 0x80 + m, 0x80 + l] @ rest) =
                  decoded c (bytes_decode rest)"
      using decode4 [OF b] c 4 by simp
    with e show ?thesis by simp
  qed
qed

lemma decode_encoded_str:
  "\<forall>c\<in>set s. scalar_value c \<Longrightarrow>
   \<exists>bs. str_encode s = Inr bs \<and> bytes_decode bs = Inr s \<and> (0 \<notin> set s \<longrightarrow> 0 \<notin> set bs)"
proof (induction s)
  case Nil
  show ?case by simp
next
  case (Cons c s)
  from Cons.prems have "scalar_value c" by simp
  from decode_encoded_code_point [OF this] obtain cs where
    cs: "encode_code_point c = Inr cs"
      "\<And>rest. bytes_decode (cs @ rest) = decoded c (bytes_decode rest)"
      "c \<noteq> 0 \<longrightarrow> 0 \<notin> set cs"
    by blast
  from Cons.IH Cons.prems obtain bs where
    bs: "str_encode s = Inr bs" "bytes_decode bs = Inr s" "0 \<notin> set s \<longrightarrow> 0 \<notin> set bs"
    by auto
  have "str_encode (c # s) = Inr (cs @ bs)"
    by (simp add: cs(1) bs(1))
  moreover have "bytes_decode (cs @ bs) = Inr (c # s)"
    by (simp add: cs(2) bs(2) decoded_def)
  moreover have "0 \<notin> set (c # s) \<longrightarrow> 0 \<notin> set (cs @ bs)"
    using cs(3) bs(3) by auto
  ultimately show ?case by blast
qed

lemma sint_c_int64:
  "- (2 ^ 63) \<le> n \<Longrightarrow> n < 2 ^ 63 \<Longrightarrow> sint (c_int64 n) = n"
  by (simp add: c_int64_def sint_sbintrunc' signed_take_bit_int_eq_self)

lemma c_int64_wraps: "c_int64 (2 ^ 64) = 0"
  by (simp add: c_int64_def word_of_int_eq_0_iff)

subsection \<open>The example installation\<close>

lemma example_exported: "exported (example_env b d) s"
  by (simp add: example_env_def)

lemma example_native: "native (example_env b d) = b"
  by (simp add: example_env_def)

lemma example_json_loads:
  "bs \<noteq> [] \<Longrightarrow> json_loads (example_env b d) (Some bs) = d bs"
  by (simp add: json_loads_def example_env_def)

lemma loaded_LIB: "LIB loaded = Some (CDLL ''/site-packages/indy_credx/libindy_credx.so'')"
  by (simp add: loaded_def)

lemma loaded_trace: "trace loaded = []"
  by (simp add: loaded_def)

lemmas get_library_at_loaded = get_library_loaded [OF loaded_LIB]

lemma example_load:
  "load_library (example_env b d) ''indy_credx'' fresh =
     (Inr (CDLL ''/site-packages/indy_credx/libindy_credx.so''),
      \<lparr>LIB = None, trace = [Dlopen ''/site-packages/indy_credx/libindy_credx.so'' True]\<rparr>)"
  by (simp add: load_library_def example_env_def fresh_def emit_def Let_def)

lemma example_get_library:
  "get_library (example_env native_ok no_json) fresh =
     (Inr (CDLL ''/site-packages/indy_credx/libindy_credx.so''),
      \<lparr>LIB = Some (CDLL ''/site-packages/indy_credx/libindy_credx.so''),
       trace = [Dlopen ''/site-packages/indy_credx/libindy_credx.so'' True,
                Call credx_set_default_logger]\<rparr>)"
proof -
  have "status (native (example_env native_ok no_json)
          (trace \<lparr>LIB = None, trace = [Dlopen ''/site-packages/indy_credx/libindy_credx.so'' True]\<rparr>)
          credx_set_default_logger) = 0"
    by (simp add: example_native native_ok_def)
  from get_library_first_ok [OF _ example_load example_exported this]
  show ?thesis by (simp add: fresh_def emit_def)
qed

lemma example_rejected_error:
  "get_current_error
     (example_env (native_rejects (lit ''payload''))
        (reads_as (PyDict [(lit ''code'', PyInt 1), (lit ''message'', PyStr (lit ''bad''))])))
     True (emit [Call (credx_object_get_json 3)] loaded) =
   (Inr (Some (CredxError (Native 1) (PyStr (lit ''bad'')) PyNone)),
    emit [Call (credx_object_get_json 3), Call credx_get_current_error,
          Call (credx_string_free (Some (lit ''payload'')))] loaded)"
proof -
  let ?kvs = "[(lit ''code'', PyInt 1), (lit ''message'', PyStr (lit ''bad''))]"
  let ?E = "example_env (native_rejects (lit ''payload'')) (reads_as (PyDict ?kvs))"
  have L: "LIB (emit [Call (credx_object_get_json 3)] loaded) =
             Some (CDLL ''/site-packages/indy_credx/libindy_credx.so'')"
    by (simp add: LIB_emit loaded_LIB)
  have d: "decode_current_error ?E True
             \<lparr>status = 0, out_string = Some (lit ''payload''), out_handle = 0\<rparr> =
           (Inr (Some (CredxError (Native 1) (PyStr (lit ''bad'')) PyNone)), [])"
  proof -
    have j: "json_loads ?E (c_char_p_value (Some (lit ''payload''))) = Inr (PyDict ?kvs)"
      by (simp add: c_char_p_value_def lit_def example_json_loads reads_as_def)
    have m: "msg_has_fields (PyDict ?kvs) = Inr True"
      by (simp add: msg_has_fields_dict lit_def)
    have e: "error_of_msg ?E (PyDict ?kvs) =
               Inr (CredxError (Native 1) (PyStr (lit ''bad'')) PyNone)"
      by (simp add: error_of_msg_def CredxErrorCode_call_def example_env_def lit_def)
    show ?thesis
      by (simp add: decode_current_error_def j m e)
  qed
  show ?thesis
    unfolding get_current_error_loaded [OF L example_exported]
    by (simp add: example_native native_rejects_def d example_exported emit_def)
qed

lemma encode_str_did: "encode_str (Some (Str (lit ''did:example:123''))) = Inr (Some (lit ''did:example:123''))"
  by (simp add: encode_str_def encode_code_point_def lit_def)

lemma encode_str_degree: "encode_str (Some (Str (lit ''degree''))) = Inr (Some (lit ''degree''))"
  by (simp add: encode_str_def encode_code_point_def lit_def)

lemma encode_str_version: "encode_str (Some (Str (lit ''1.0''))) = Inr (Some (lit ''1.0''))"
  by (simp add: encode_str_def encode_code_point_def lit_def)

lemma encode_str_no_attrs:
  "encode_str (Some (Str (json_dumps (example_env b d) []))) = Inr (Some (lit ''[]''))"
  by (simp add: encode_str_def encode_code_point_def lit_def example_env_def)

lemma example_create_schema:
  "create_schema (example_env native_ok no_json)
     (lit ''did:example:123'') (lit ''degree'') (lit ''1.0'') [] seq_no loaded =
   (Inr 0,
    emit [Call (credx_create_schema (Some (lit ''did:example:123'')) (Some (lit ''degree''))
            (Some (lit ''1.0'')) (Some (lit ''[]''))
            (c_int64 (case seq_no of None \<Rightarrow> - 1 | Some n \<Rightarrow> if n = 0 then - 1 else n)))]
      loaded)"
  by (simp add: create_schema_def encode_str_did encode_str_degree encode_str_version
      encode_str_no_attrs do_call_loaded [OF loaded_LIB] example_exported example_native
      native_ok_def)

section \<open>The claims\<close>

subsection \<open>C1: one release per handle\<close>

text \<open>
  Claim C1, as the code has it. With the library loaded, ending the lifetime of the
  \<open>ObjectHandle\<close> instances \<open>hs\<close> calls \<open>credx_object_free\<close> for a value \<open>v\<close> once for
  every instance that carries \<open>v\<close>: once per instance, not once per value.
\<close>

theorem object_free_once_per_instance:
  assumes "LIB w = Some lib" and "exported E ''credx_object_free''"
  shows "calls (credx_object_free v) (release_handles E hs w) =
         calls (credx_object_free v) w + count_list hs v"
  using assms by (simp add: release_handles_calls)

text \<open>
  Claim C1 on the example installation: of the two instances 5 and 6, the value 5 is
  freed once.
\<close>

theorem object_free_once_per_instance_witness:
  "LIB loaded = Some (CDLL ''/site-packages/indy_credx/libindy_credx.so'')
   \<and> exported (example_env native_ok no_json) ''credx_object_free''
   \<and> calls (credx_object_free 5) (release_handles (example_env native_ok no_json) [5, 6] loaded)
       = 1"
  using object_free_once_per_instance [OF loaded_LIB example_exported,
      where v = 5 and hs = "[5, 6]" and b1 = native_ok and d1 = no_json]
  by (simp add: loaded_LIB example_exported calls_def loaded_trace)

text \<open>
  Claim C1 as stated fails: two instances that carry the value 7 free it twice.
\<close>

theorem object_free_twice_for_copies:
  "\<not> calls (credx_object_free 7) (release_handles (example_env native_ok no_json) [7, 7] loaded)
       \<le> 1"
  unfolding release_handles_calls [OF example_exported loaded_LIB]
  by (simp add: calls_def loaded_trace)

subsection \<open>C2: the error fetch itself fails\<close>

text \<open>
  Claim C2, as the code has it. When the native \<open>credx_get_current_error\<close> call itself
  returns a non-zero status, \<open>get_current_error\<close> does not raise, and it returns the
  wrapper's "Unknown error" whatever \<open>expect\<close> is: the test of \<open>expect\<close> sits inside the
  branch for a zero status.
\<close>

theorem get_current_error_fetch_failed:
  assumes "get_library E w = (Inr lib, w1)"
    and "exported E ''credx_get_current_error''"
    and "status (native E (trace w1) credx_get_current_error) \<noteq> 0"
  shows "fst (get_current_error E expect w) = Inr (Some unknown_error)"
proof -
  have "fst (get_current_error E expect w1) = Inr (Some unknown_error)"
    using assms(3)
    by (simp add: get_current_error_result [OF get_library_LIB [OF assms(1)] assms(2)]
        decode_current_error_failed)
  then show ?thesis
    by (simp add: get_current_error_via [OF assms(1)])
qed

text \<open>
  Claim C2 on the example installation, with a native library whose error fetch returns
  status 1.
\<close>

theorem get_current_error_fetch_failed_witness:
  "get_library (example_env native_fetch_fails no_json) loaded =
     (Inr (CDLL ''/site-packages/indy_credx/libindy_credx.so''), loaded)
   \<and> exported (example_env native_fetch_fails no_json) ''credx_get_current_error''
   \<and> status (native (example_env native_fetch_fails no_json) (trace loaded)
        credx_get_current_error) \<noteq> 0
   \<and> fst (get_current_error (example_env native_fetch_fails no_json) True loaded) =
       Inr (Some (CredxError WRAPPER (PyStr (lit ''Unknown error'')) PyNone))"
proof -
  let ?E = "example_env native_fetch_fails no_json"
  have h1: "get_library ?E loaded =
              (Inr (CDLL ''/site-packages/indy_credx/libindy_credx.so''), loaded)"
    by (rule get_library_at_loaded)
  have h2: "exported ?E ''credx_get_current_error''"
    by (rule example_exported)
  have h3: "status (native ?E (trace loaded) credx_get_current_error) \<noteq> 0"
    by (simp add: example_native native_fetch_fails_def)
  from get_current_error_fetch_failed [OF h1 h2 h3, of True] h1 h2 h3
  show ?thesis by (simp add: unknown_error_def)
qed

text \<open>
  Claim C2 as stated fails: with \<open>expect = False\<close> and a failing fetch the result is the
  wrapper's error, not \<open>None\<close>.
\<close>

theorem get_current_error_fetch_failed_not_None:
  "status (native (example_env native_fetch_fails no_json) (trace loaded)
        credx_get_current_error) \<noteq> 0
   \<and> fst (get_current_error (example_env native_fetch_fails no_json) False loaded) =
       Inr (Some (CredxError WRAPPER (PyStr (lit ''Unknown error'')) PyNone))
   \<and> fst (get_current_error (example_env native_fetch_fails no_json) False loaded) \<noteq> Inr None"
proof -
  let ?E = "example_env native_fetch_fails no_json"
  have h3: "status (native ?E (trace loaded) credx_get_current_error) \<noteq> 0"
    by (simp add: example_native native_fetch_fails_def)
  have "fst (get_current_error ?E False loaded) = Inr (Some unknown_error)"
    using h3
    by (simp add: get_current_error_result [OF loaded_LIB example_exported]
        decode_current_error_failed)
  with h3 show ?thesis by (simp add: unknown_error_def)
qed

subsection \<open>C3: no error pending\<close>

text \<open>
  Claim C3 at the failing input. A successful fetch that leaves an empty string is
  harmless: the \<open>JSONDecodeError\<close> is caught (\<open>decode_current_error_empty\<close>). A
  successful fetch that leaves the NULL pointer is not: the library is loaded, the
  native fetch returns 0 and writes nothing, \<open>err_json.value\<close> is \<open>None\<close>,
  \<open>json.loads(None)\<close> raises \<open>TypeError\<close>, only \<open>json.JSONDecodeError\<close> is caught, and
  \<open>get_current_error(False)\<close> raises.
\<close>

theorem get_current_error_null_raises:
  "status (native (example_env native_ok no_json) (trace loaded) credx_get_current_error) = 0
   \<and> out_string (native (example_env native_ok no_json) (trace loaded) credx_get_current_error)
       = None
   \<and> fst (get_current_error (example_env native_ok no_json) False loaded) = Inl TypeError"
  by (simp add: get_current_error_result [OF loaded_LIB example_exported]
      decode_current_error_null example_native native_ok_def)

subsection \<open>C4: one release per string\<close>

text \<open>
  Claim C4, as the code has it. Where \<open>get_library\<close> succeeds, the end of a
  \<open>lib_string\<close>'s lifetime calls \<open>credx_string_free\<close> exactly once, with the wrapped
  reference, and makes no other call of it; \<open>__del__\<close> does not look at the reference, so
  this holds for NULL as well.
\<close>

theorem lib_string_del_frees_once:
  assumes "get_library E w = (Inr lib, w1)" and "exported E ''credx_string_free''"
  shows "calls (credx_string_free p) (finalize (lib_string_del E s) w) =
         calls (credx_string_free p) w + (if p = s then 1 else 0)"
proof -
  have "finalize (lib_string_del E s) w = emit [Call (credx_string_free s)] w1"
    using assms(2)
    by (simp add: finalize_def lib_string_del_via [OF assms(1)]
        lib_string_del_loaded [OF get_library_LIB [OF assms(1)]])
  moreover have "calls (credx_string_free p) w1 = calls (credx_string_free p) w"
    by (rule get_library_calls [OF assms(1)]) simp
  ultimately show ?thesis by (auto simp: calls_emit)
qed

text \<open>
  Claim C4 on the example installation: a wrapper of the string "{}" frees that string
  once and nothing else.
\<close>

theorem lib_string_del_frees_once_witness:
  "get_library (example_env native_ok no_json) loaded =
     (Inr (CDLL ''/site-packages/indy_credx/libindy_credx.so''), loaded)
   \<and> exported (example_env native_ok no_json) ''credx_string_free''
   \<and> calls (credx_string_free (Some (lit ''{}'')))
        (finalize (lib_string_del (example_env native_ok no_json) (Some (lit ''{}''))) loaded) = 1
   \<and> calls (credx_string_free None)
        (finalize (lib_string_del (example_env native_ok no_json) (Some (lit ''{}''))) loaded) = 0"
  using lib_string_del_frees_once [OF get_library_at_loaded example_exported,
      where p = "Some (lit ''{}'')" and s = "Some (lit ''{}'')" and b1 = native_ok and d1 = no_json]
    lib_string_del_frees_once [OF get_library_at_loaded example_exported,
      where p = None and s = "Some (lit ''{}'')" and b1 = native_ok and d1 = no_json]
  by (simp add: get_library_at_loaded example_exported calls_def loaded_trace)

text \<open>
  Claim C4 as stated fails: a wrapper that holds NULL calls the free entry point.
\<close>

theorem lib_string_del_frees_null:
  "calls (credx_string_free None) loaded = 0
   \<and> calls (credx_string_free None)
        (finalize (lib_string_del (example_env native_ok no_json) None) loaded) = 1"
  by (simp add: finalize_def lib_string_del_loaded [OF loaded_LIB] example_exported
      calls_def trace_emit loaded_trace)

subsection \<open>C5: a payload without the required fields\<close>

text \<open>
  Claim C5 at the failing input. The native fetch succeeds and writes the payload
  \<open>1\<close>, which \<open>json.loads\<close> decodes to the number 1: a payload without \<open>message\<close> and
  without \<open>code\<close>. The number is true, so the test goes on to \<open>"message" in msg\<close>,
  which raises \<open>TypeError\<close> for a number; the test stands outside the \<open>try\<close>, and
  \<open>get_current_error\<close> raises for either value of \<open>expect\<close>, where the claim has
  \<open>None\<close> and the wrapper's "Unknown error".
\<close>

theorem get_current_error_number_payload_raises:
  "status (native (example_env (native_rejects (lit ''1'')) (reads_as (PyInt 1)))
      (trace loaded) credx_get_current_error) = 0
   \<and> json_loads (example_env (native_rejects (lit ''1'')) (reads_as (PyInt 1)))
       (c_char_p_value (out_string
          (native (example_env (native_rejects (lit ''1'')) (reads_as (PyInt 1)))
             (trace loaded) credx_get_current_error))) = Inr (PyInt 1)
   \<and> fst (get_current_error (example_env (native_rejects (lit ''1'')) (reads_as (PyInt 1)))
         False loaded) = Inl TypeError
   \<and> fst (get_current_error (example_env (native_rejects (lit ''1'')) (reads_as (PyInt 1)))
         True loaded) = Inl TypeError"
proof -
  let ?E = "example_env (native_rejects (lit ''1'')) (reads_as (PyInt 1))"
  have r: "native ?E (trace loaded) credx_get_current_error =
             \<lparr>status = 0, out_string = Some (lit ''1''), out_handle = 0\<rparr>"
    by (simp add: example_native native_rejects_def)
  have j: "json_loads ?E (c_char_p_value (Some (lit ''1''))) = Inr (PyInt 1)"
    by (simp add: c_char_p_value_def lit_def example_json_loads reads_as_def)
  have m: "msg_has_fields (PyInt 1) = Inl TypeError"
    by (simp add: msg_has_fields_def)
  have d: "\<And>expect. decode_current_error ?E expect
             \<lparr>status = 0, out_string = Some (lit ''1''), out_handle = 0\<rparr> = (Inl TypeError, [])"
    by (simp add: decode_current_error_def j m)
  show ?thesis
    unfolding get_current_error_result [OF loaded_LIB example_exported] r
    by (simp add: j d)
qed

text \<open>
  For a payload that decodes to an object the code does what the claim says: an object
  that lacks \<open>message\<close> or \<open>code\<close> gives \<open>None\<close> when \<open>expect\<close> is false and the
  wrapper's "Unknown error" when it is true.
\<close>

theorem get_current_error_missing_field:
  assumes "get_library E w = (Inr lib, w1)"
    and "exported E ''credx_get_current_error''"
    and "status (native E (trace w1) credx_get_current_error) = 0"
    and "json_loads E (c_char_p_value (out_string (native E (trace w1) credx_get_current_error)))
           = Inr (PyDict kvs)"
    and "lit ''message'' \<notin> fst ` set kvs \<or> lit ''code'' \<notin> fst ` set kvs"
  shows "fst (get_current_error E expect w) = Inr (if expect then Some unknown_error else None)"
proof -
  have "fst (get_current_error E expect w1) =
          Inr (if expect then Some unknown_error else None)"
    unfolding get_current_error_result [OF get_library_LIB [OF assms(1)] assms(2)]
    by (rule decode_current_error_lacking [OF assms(3,4,5)])
  then show ?thesis
    by (simp add: get_current_error_via [OF assms(1)])
qed

text \<open>
  The same on the example installation, for a payload that decodes to an object with a
  \<open>code\<close> and no \<open>message\<close>.
\<close>

theorem get_current_error_missing_field_witness:
  "get_library (example_env (native_rejects (lit ''payload''))
       (reads_as (PyDict [(lit ''code'', PyInt 1)]))) loaded =
     (Inr (CDLL ''/site-packages/indy_credx/libindy_credx.so''), loaded)
   \<and> lit ''message'' \<notin> fst ` set [(lit ''code'', PyInt 1)]
   \<and> fst (get_current_error (example_env (native_rejects (lit ''payload''))
           (reads_as (PyDict [(lit ''code'', PyInt 1)]))) False loaded) = Inr None
   \<and> fst (get_current_error (example_env (native_rejects (lit ''payload''))
           (reads_as (PyDict [(lit ''code'', PyInt 1)]))) True loaded) =
       Inr (Some (CredxError WRAPPER (PyStr (lit ''Unknown error'')) PyNone))"
proof -
  let ?kvs = "[(lit ''code'', PyInt 1)]"
  let ?E = "example_env (native_rejects (lit ''payload'')) (reads_as (PyDict ?kvs))"
  have h1: "get_library ?E loaded =
              (Inr (CDLL ''/site-packages/indy_credx/libindy_credx.so''), loaded)"
    by (rule get_library_at_loaded)
  have h2: "exported ?E ''credx_get_current_error''"
    by (rule example_exported)
  have r: "native ?E (trace loaded) credx_get_current_error =
             \<lparr>status = 0, out_string = Some (lit ''payload''), out_handle = 0\<rparr>"
    by (simp add: example_native native_rejects_def)
  have h3: "status (native ?E (trace loaded) credx_get_current_error) = 0"
    by (simp add: r)
  have h4: "json_loads ?E (c_char_p_value (out_string
              (native ?E (trace loaded) credx_get_current_error))) = Inr (PyDict ?kvs)"
    unfolding r by (simp add: c_char_p_value_def lit_def example_json_loads reads_as_def)
  have h5: "lit ''message'' \<notin> fst ` set ?kvs \<or> lit ''code'' \<notin> fst ` set ?kvs"
    by (simp add: lit_def)
  from get_current_error_missing_field [OF h1 h2 h3 h4 h5, of False]
       get_current_error_missing_field [OF h1 h2 h3 h4 h5, of True] h1
  show ?thesis by (simp add: unknown_error_def lit_def)
qed

subsection \<open>C6: the status of a native call\<close>

text \<open>
  Claim C6 at the failing input. A native call returns the status 1, and the error
  fetch that follows returns 0 and leaves the out pointer NULL. \<open>do_call\<close> does make
  the lookup with \<open>expect = True\<close>, but the lookup raises the \<open>TypeError\<close> of
  \<open>json.loads(None)\<close> (the defect of claim C3), and that exception, not a structured
  error, is what reaches the caller of \<open>do_call\<close>.
\<close>

theorem do_call_raises_unstructured:
  "status (native (example_env native_rejects_silently no_json) (trace loaded)
      (credx_object_get_json 3)) \<noteq> 0
   \<and> do_call (example_env native_rejects_silently no_json) (credx_object_get_json 3) loaded =
       (Inl TypeError,
        emit [Call (credx_object_get_json 3), Call credx_get_current_error] loaded)"
proof -
  let ?E = "example_env native_rejects_silently no_json"
  let ?nc = "credx_object_get_json 3"
  have s1: "status (native ?E (trace loaded) ?nc) \<noteq> 0"
    by (simp add: example_native native_rejects_silently_def)
  have L: "LIB (emit [Call ?nc] loaded) =
             Some (CDLL ''/site-packages/indy_credx/libindy_credx.so'')"
    by (simp add: LIB_emit loaded_LIB)
  have r: "native ?E (trace (emit [Call ?nc] loaded)) credx_get_current_error =
             \<lparr>status = 0, out_string = None, out_handle = 0\<rparr>"
    by (simp add: example_native native_rejects_silently_def)
  have d: "decode_current_error ?E True \<lparr>status = 0, out_string = None, out_handle = 0\<rparr> =
             (Inl TypeError, [])"
    by (simp add: decode_current_error_null)
  have g: "get_current_error ?E True (emit [Call ?nc] loaded) =
             (Inl TypeError, emit [Call ?nc, Call credx_get_current_error] loaded)"
    unfolding get_current_error_loaded [OF L example_exported] r
    by (simp add: d emit_def)
  have "do_call ?E ?nc loaded =
          (Inl TypeError, emit [Call ?nc, Call credx_get_current_error] loaded)"
    using s1 by (simp add: do_call_loaded [OF loaded_LIB] example_exported g)
  with s1 show ?thesis by simp
qed

text \<open>
  What \<open>do_call\<close> itself does, on an entry point the library exports and where
  \<open>get_library\<close> succeeds: a zero status returns without raising. A non-zero status
  always raises: \<open>get_current_error(True)\<close> is called right after the native call (it
  is the next native call made), it never returns \<open>None\<close>, the structured error it
  returns is the exception raised, and an exception it raises itself passes through.
\<close>

theorem do_call_status:
  assumes "get_library E w = (Inr lib, w1)" and "exported E (fn_name nc)"
  shows "(status (native E (trace w1) nc) = 0 \<longrightarrow>
            do_call E nc w = (Inr (native E (trace w1) nc), emit [Call nc] w1))
       \<and> (status (native E (trace w1) nc) \<noteq> 0 \<longrightarrow>
            isl (fst (do_call E nc w))
          \<and> fst (get_current_error E True (emit [Call nc] w1)) \<noteq> Inr None
          \<and> (\<forall>err w3. get_current_error E True (emit [Call nc] w1) = (Inr (Some err), w3) \<longrightarrow>
                do_call E nc w = (Inl (Raised err), w3))
          \<and> (\<forall>e w3. get_current_error E True (emit [Call nc] w1) = (Inl e, w3) \<longrightarrow>
                do_call E nc w = (Inl e, w3))
          \<and> (exported E ''credx_get_current_error'' \<longrightarrow>
                (\<exists>rest. trace (snd (do_call E nc w)) =
                         trace w1 @ Call nc # Call credx_get_current_error # rest)))"
proof -
  note L = get_library_LIB [OF assms(1)]
  have L2: "LIB (emit [Call nc] w1) = Some lib"
    using L by (simp add: LIB_emit)
  note dc = do_call_via [OF assms(1)] do_call_loaded [OF L]
  obtain x w3 where g: "get_current_error E True (emit [Call nc] w1) = (x, w3)"
    by (cases "get_current_error E True (emit [Call nc] w1)")
  have nn: "x \<noteq> Inr None"
    using get_current_error_expect [OF L2, of E] g by simp
  have ok: "status (native E (trace w1) nc) = 0 \<Longrightarrow>
            do_call E nc w = (Inr (native E (trace w1) nc), emit [Call nc] w1)"
    using assms(2) by (simp add: dc)
  have bad: "do_call E nc w =
               (case x of Inl e \<Rightarrow> (Inl e, w3) | Inr None \<Rightarrow> (Inl TypeError, w3)
                | Inr (Some err) \<Rightarrow> (Inl (Raised err), w3))"
    if "status (native E (trace w1) nc) \<noteq> 0"
    using assms(2) that by (simp add: dc g)
  have tr: "\<exists>rest. trace w3 = trace w1 @ Call nc # Call credx_get_current_error # rest"
    if "exported E ''credx_get_current_error''"
    using get_current_error_trace [OF L2 that, of True] g by (simp add: trace_emit)
  have snd_bad: "snd (do_call E nc w) = w3" if "status (native E (trace w1) nc) \<noteq> 0"
    using bad [OF that] by (simp split: sum.splits option.splits)
  show ?thesis
    using ok bad nn tr snd_bad g
    by (auto split: sum.splits option.splits)
qed

text \<open>
  The same on the example installation: a call that returns 0, and a call that returns
  1 and whose error payload carries code 1 and the message "bad".
\<close>

theorem do_call_status_witness:
  "get_library (example_env native_ok no_json) loaded =
     (Inr (CDLL ''/site-packages/indy_credx/libindy_credx.so''), loaded)
   \<and> status (native (example_env native_ok no_json) (trace loaded) (credx_object_get_json 3)) = 0
   \<and> do_call (example_env native_ok no_json) (credx_object_get_json 3) loaded =
       (Inr \<lparr>status = 0, out_string = None, out_handle = 0\<rparr>,
        emit [Call (credx_object_get_json 3)] loaded)
   \<and> status (native
        (example_env (native_rejects (lit ''payload''))
           (reads_as (PyDict [(lit ''code'', PyInt 1), (lit ''message'', PyStr (lit ''bad''))])))
        (trace loaded) (credx_object_get_json 3)) \<noteq> 0
   \<and> do_call
        (example_env (native_rejects (lit ''payload''))
           (reads_as (PyDict [(lit ''code'', PyInt 1), (lit ''message'', PyStr (lit ''bad''))])))
        (credx_object_get_json 3) loaded =
       (Inl (Raised (CredxError (Native 1) (PyStr (lit ''bad'')) PyNone)),
        emit [Call (credx_object_get_json 3), Call credx_get_current_error,
              Call (credx_string_free (Some (lit ''payload'')))] loaded)"
proof -
  let ?kvs = "[(lit ''code'', PyInt 1), (lit ''message'', PyStr (lit ''bad''))]"
  let ?E = "example_env (native_rejects (lit ''payload'')) (reads_as (PyDict ?kvs))"
  let ?nc = "credx_object_get_json 3"
  have s0: "native (example_env native_ok no_json) (trace loaded) ?nc =
              \<lparr>status = 0, out_string = None, out_handle = 0\<rparr>"
    by (simp add: example_native native_ok_def)
  have s1: "status (native ?E (trace loaded) ?nc) \<noteq> 0"
    by (simp add: example_native native_rejects_def)
  from do_call_status [OF get_library_at_loaded example_exported,
         where nc = ?nc and b1 = native_ok and d1 = no_json]
  have a: "do_call (example_env native_ok no_json) ?nc loaded =
             (Inr \<lparr>status = 0, out_string = None, out_handle = 0\<rparr>, emit [Call ?nc] loaded)"
    by (simp add: s0)
  from do_call_status [OF get_library_at_loaded example_exported,
         where nc = ?nc and b1 = "native_rejects (lit ''payload'')"
           and d1 = "reads_as (PyDict ?kvs)"] s1
  have b: "do_call ?E ?nc loaded =
             (Inl (Raised (CredxError (Native 1) (PyStr (lit ''bad'')) PyNone)),
              emit [Call ?nc, Call credx_get_current_error,
                    Call (credx_string_free (Some (lit ''payload'')))] loaded)"
    using example_rejected_error by blast
  from a b s1 show ?thesis
    by (simp add: get_library_at_loaded s0)
qed

subsection \<open>C7: the library is loaded once\<close>

text \<open>
  Claim C7. \<open>get_library\<close> is idempotent. A first call that finds no library loaded and
  succeeds opens exactly one shared object and registers the default logger exactly
  once; every later call, however many, returns the same library object and leaves the
  state as it is: no load, no native call, no log record.
\<close>

theorem get_library_idempotent:
  assumes "LIB w = None" and "get_library E w = (Inr lib, w1)"
  shows "loads w1 = loads w + 1
       \<and> calls credx_set_default_logger w1 = calls credx_set_default_logger w + 1
       \<and> (\<forall>n. get_library_times E n w1 = (replicate n (Inr lib), w1))"
proof -
  from get_library_first [OF assms] obtain w0 where
    ld: "load_library E ''indy_credx'' w = (Inr lib, w0)" and
    w1: "w1 = emit [Call credx_set_default_logger] (w0\<lparr>LIB := Some lib\<rparr>)"
    by blast
  from load_library_loads [OF ld] obtain es where
    es: "trace w0 = trace w @ es" "length (filter opened es) = 1" "\<forall>nc. Call nc \<notin> set es"
    by blast
  have a: "loads w1 = loads w + 1"
    using es(1,2) w1 by (simp add: loads_def trace_emit)
  have "count_list es (Call credx_set_default_logger) = 0"
    using es(3) by (simp add: count_list_0_iff)
  then have b: "calls credx_set_default_logger w1 = calls credx_set_default_logger w + 1"
    using es(1) w1 by (simp add: calls_def trace_emit)
  have c: "\<forall>n. get_library_times E n w1 = (replicate n (Inr lib), w1)"
    using get_library_times_loaded [OF get_library_LIB [OF assms(2)]] by blast
  from a b c show ?thesis by blast
qed

text \<open>
  Claim C7 on the example installation: the first call opens the library in the
  package directory and registers the logger, three more calls change nothing.
\<close>

theorem get_library_idempotent_witness:
  "LIB fresh = None
   \<and> get_library (example_env native_ok no_json) fresh =
       (Inr (CDLL ''/site-packages/indy_credx/libindy_credx.so''),
        \<lparr>LIB = Some (CDLL ''/site-packages/indy_credx/libindy_credx.so''),
         trace = [Dlopen ''/site-packages/indy_credx/libindy_credx.so'' True,
                  Call credx_set_default_logger]\<rparr>)
   \<and> loads \<lparr>LIB = Some (CDLL ''/site-packages/indy_credx/libindy_credx.so''),
         trace = [Dlopen ''/site-packages/indy_credx/libindy_credx.so'' True,
                  Call credx_set_default_logger]\<rparr> = 1
   \<and> get_library_times (example_env native_ok no_json) 3
        \<lparr>LIB = Some (CDLL ''/site-packages/indy_credx/libindy_credx.so''),
         trace = [Dlopen ''/site-packages/indy_credx/libindy_credx.so'' True,
                  Call credx_set_default_logger]\<rparr> =
       (replicate 3 (Inr (CDLL ''/site-packages/indy_credx/libindy_credx.so'')),
        \<lparr>LIB = Some (CDLL ''/site-packages/indy_credx/libindy_credx.so''),
         trace = [Dlopen ''/site-packages/indy_credx/libindy_credx.so'' True,
                  Call credx_set_default_logger]\<rparr>)"
proof -
  have h1: "LIB fresh = None" by (simp add: fresh_def)
  note h2 = example_get_library
  from get_library_idempotent [OF h1 h2] h1 h2
  show ?thesis by (simp add: loads_def fresh_def)
qed

subsection \<open>C8: the string round trip\<close>

text \<open>
  Claim C8, as the code has it. A text without U+0000 and without surrogates is encoded
  by \<open>encode_str\<close> to bytes that a reader of the C string sees unchanged, and
  \<open>decode_str\<close> on those bytes gives the text back.
\<close>

theorem encode_decode_roundtrip:
  assumes "\<forall>c\<in>set s. scalar_value c \<and> c \<noteq> 0"
  shows "\<exists>bs. encode_str (Some (Str s)) = Inr (Some bs)
           \<and> c_char_p_value (Some bs) = Some bs
           \<and> decode_str bs = Inr s"
proof -
  from assms have "\<forall>c\<in>set s. scalar_value c" and z: "0 \<notin> set s" by auto
  from decode_encoded_str [OF this(1)] z obtain bs where
    bs: "str_encode s = Inr bs" "bytes_decode bs = Inr s" "0 \<notin> set bs"
    by blast
  have "\<forall>b\<in>set bs. b \<noteq> 0"
    using bs(3) by metis
  then have "takeWhile (\<lambda>b. b \<noteq> 0) bs = bs"
    by (simp add: takeWhile_eq_all_conv)
  then show ?thesis
    using bs by (simp add: encode_str_def c_char_p_value_def decode_str_def)
qed

text \<open>
  Claim C8 on a text with code points of one, two, three and four bytes.
\<close>

theorem encode_decode_roundtrip_witness:
  "scalar_value 0x64 \<and> scalar_value 0xE9 \<and> scalar_value 0x20AC \<and> scalar_value 0x1F600
   \<and> encode_str (Some (Str [0x64, 0xE9, 0x20AC, 0x1F600])) =
       Inr (Some [0x64, 0xC3, 0xA9, 0xE2, 0x82, 0xAC, 0xF0, 0x9F, 0x98, 0x80])
   \<and> c_char_p_value (Some [0x64, 0xC3, 0xA9, 0xE2, 0x82, 0xAC, 0xF0, 0x9F, 0x98, 0x80]) =
       Some [0x64, 0xC3, 0xA9, 0xE2, 0x82, 0xAC, 0xF0, 0x9F, 0x98, 0x80]
   \<and> decode_str [0x64, 0xC3, 0xA9, 0xE2, 0x82, 0xAC, 0xF0, 0x9F, 0x98, 0x80] =
       Inr [0x64, 0xE9, 0x20AC, 0x1F600]"
proof -
  have h: "\<forall>c\<in>set [0x64, 0xE9, 0x20AC, 0x1F600::nat]. scalar_value c \<and> c \<noteq> 0"
    by (simp add: scalar_value_def)
  have e: "encode_str (Some (Str [0x64, 0xE9, 0x20AC, 0x1F600])) =
             Inr (Some [0x64, 0xC3, 0xA9, 0xE2, 0x82, 0xAC, 0xF0, 0x9F, 0x98, 0x80])"
    by (simp add: encode_str_def encode_code_point_def)
  have v: "scalar_value 0x64 \<and> scalar_value 0xE9 \<and> scalar_value 0x20AC
             \<and> scalar_value 0x1F600"
    by (simp add: scalar_value_def)
  from encode_decode_roundtrip [OF h] v e show ?thesis
    by auto
qed

text \<open>
  Claim C8 as stated fails: the C string of a text with U+0000 ends at the NUL, so the
  echo of the text a, U+0000, b decodes to the text a; and a text with a lone surrogate
  is not encoded at all.
\<close>

theorem roundtrip_fails_on_nul_and_surrogate:
  "scalar_value 0x61 \<and> scalar_value 0 \<and> scalar_value 0x62
   \<and> encode_str (Some (Str [0x61, 0, 0x62])) = Inr (Some [0x61, 0, 0x62])
   \<and> c_char_p_value (Some [0x61, 0, 0x62]) = Some [0x61]
   \<and> decode_str [0x61] = Inr [0x61]
   \<and> encode_str (Some (Str [0xD800])) = Inl UnicodeEncodeError"
  by (simp add: scalar_value_def encode_str_def encode_code_point_def c_char_p_value_def
      decode_str_def decoded_def)

subsection \<open>C9: an error code outside the enumeration\<close>

text \<open>
  Claim C9. The native fetch succeeds, the payload decodes to an object with \<open>message\<close>
  and an integer \<open>code\<close>, and the code is no member of the enumeration: the conversion's
  \<open>ValueError\<close> leaves \<open>get_current_error\<close> unhandled, whatever \<open>expect\<close> is; the
  result is not the wrapper's "Unknown error".
\<close>

theorem get_current_error_unknown_code:
  assumes "get_library E w = (Inr lib, w1)"
    and "exported E ''credx_get_current_error''"
    and "status (native E (trace w1) credx_get_current_error) = 0"
    and "json_loads E (c_char_p_value (out_string (native E (trace w1) credx_get_current_error)))
           = Inr (PyDict kvs)"
    and "lit ''message'' \<in> fst ` set kvs"
    and "map_of kvs (lit ''code'') = Some (PyInt n)"
    and "CredxErrorCode_call E (PyInt n) = Inl ValueError"
  shows "fst (get_current_error E expect w) = Inl ValueError"
proof -
  have "n \<noteq> wrapper_value E" "n \<notin> set (native_codes E)"
    using assms(7) by (auto simp: CredxErrorCode_call_def split: if_splits)
  then have "fst (get_current_error E expect w1) = Inl ValueError"
    unfolding get_current_error_result [OF get_library_LIB [OF assms(1)] assms(2)]
    by (rule decode_current_error_not_member [OF assms(3,4,5,6)])
  then show ?thesis
    by (simp add: get_current_error_via [OF assms(1)])
qed

text \<open>
  Claim C9 on the example installation, whose enumeration has the values 0 to 8 and 99,
  for a payload with code 42.
\<close>

theorem get_current_error_unknown_code_witness:
  "get_library (example_env (native_rejects (lit ''payload''))
       (reads_as (PyDict [(lit ''code'', PyInt 42), (lit ''message'', PyStr (lit ''bad''))])))
       loaded =
     (Inr (CDLL ''/site-packages/indy_credx/libindy_credx.so''), loaded)
   \<and> CredxErrorCode_call (example_env (native_rejects (lit ''payload''))
       (reads_as (PyDict [(lit ''code'', PyInt 42), (lit ''message'', PyStr (lit ''bad''))])))
       (PyInt 42) = Inl ValueError
   \<and> fst (get_current_error (example_env (native_rejects (lit ''payload''))
       (reads_as (PyDict [(lit ''code'', PyInt 42), (lit ''message'', PyStr (lit ''bad''))])))
       True loaded) = Inl ValueError"
proof -
  let ?kvs = "[(lit ''code'', PyInt 42), (lit ''message'', PyStr (lit ''bad''))]"
  let ?E = "example_env (native_rejects (lit ''payload'')) (reads_as (PyDict ?kvs))"
  have h1: "get_library ?E loaded =
              (Inr (CDLL ''/site-packages/indy_credx/libindy_credx.so''), loaded)"
    by (rule get_library_at_loaded)
  have h2: "exported ?E ''credx_get_current_error''"
    by (rule example_exported)
  have r: "native ?E (trace loaded) credx_get_current_error =
             \<lparr>status = 0, out_string = Some (lit ''payload''), out_handle = 0\<rparr>"
    by (simp add: example_native native_rejects_def)
  have h3: "status (native ?E (trace loaded) credx_get_current_error) = 0"
    by (simp add: r)
  have h4: "json_loads ?E (c_char_p_value (out_string
              (native ?E (trace loaded) credx_get_current_error))) = Inr (PyDict ?kvs)"
    unfolding r by (simp add: c_char_p_value_def lit_def example_json_loads reads_as_def)
  have h5: "lit ''message'' \<in> fst ` set ?kvs"
    by (simp add: lit_def)
  have h6: "map_of ?kvs (lit ''code'') = Some (PyInt 42)"
    by (simp add: lit_def)
  have h7: "CredxErrorCode_call ?E (PyInt 42) = Inl ValueError"
    by (simp add: CredxErrorCode_call_def example_env_def)
  from get_current_error_unknown_code [OF h1 h2 h3 h4 h5 h6 h7, of True] h1 h7
  show ?thesis by simp
qed

subsection \<open>C10: the sequence number of a schema\<close>

text \<open>
  Claim C10, as the code has it. Where \<open>get_library\<close> succeeds and the arguments encode,
  \<open>create_schema\<close> calls the native constructor with a sequence number that reads
  \<open>-1\<close> for \<open>None\<close> and for \<open>0\<close> alike, and \<open>n\<close> for every non-zero \<open>n\<close> of the signed
  64-bit range.
\<close>

theorem create_schema_seq_no:
  assumes "get_library E w = (Inr lib, w1)" and "exported E ''credx_create_schema''"
    and "encode_str (Some (Str origin_did)) = Inr a1"
    and "encode_str (Some (Str name)) = Inr a2"
    and "encode_str (Some (Str version)) = Inr a3"
    and "encode_str (Some (Str (json_dumps E attr_names))) = Inr a4"
  shows "\<exists>a5 rest.
           trace (snd (create_schema E origin_did name version attr_names seq_no w)) =
             trace w1 @ Call (credx_create_schema a1 a2 a3 a4 a5) # rest
         \<and> (seq_no = None \<or> seq_no = Some 0 \<longrightarrow> sint a5 = - 1)
         \<and> (\<forall>n. seq_no = Some n \<and> n \<noteq> 0 \<and> - (2 ^ 63) \<le> n \<and> n < 2 ^ 63 \<longrightarrow> sint a5 = n)"
proof -
  define a5 where "a5 = c_int64 (case seq_no of None \<Rightarrow> - 1 | Some n \<Rightarrow> if n = 0 then - 1 else n)"
  let ?nc = "credx_create_schema a1 a2 a3 a4 a5"
  have e: "exported E (fn_name ?nc)" using assms(2) by simp
  from do_call_trace [OF assms(1) e] obtain rest where
    r: "trace (snd (do_call E ?nc w)) = trace w1 @ Call ?nc # rest"
    by blast
  have "snd (create_schema E origin_did name version attr_names seq_no w) = snd (do_call E ?nc w)"
    by (simp add: create_schema_def assms(3-6) a5_def Let_def split: prod.splits sum.splits)
  with r have t: "trace (snd (create_schema E origin_did name version attr_names seq_no w)) =
                   trace w1 @ Call ?nc # rest"
    by simp
  have m: "sint (c_int64 (- 1)) = - 1"
    by (rule sint_c_int64) simp_all
  have 1: "seq_no = None \<or> seq_no = Some 0 \<longrightarrow> sint a5 = - 1"
    using m by (auto simp: a5_def)
  have 2: "\<forall>n. seq_no = Some n \<and> n \<noteq> 0 \<and> - (2 ^ 63) \<le> n \<and> n < 2 ^ 63 \<longrightarrow> sint a5 = n"
    by (auto simp: a5_def sint_c_int64)
  from t 1 2 show ?thesis by blast
qed

text \<open>
  Claim C10 on the example installation, for no sequence number, for 0 and for 7.
\<close>

theorem create_schema_seq_no_witness:
  "get_library (example_env native_ok no_json) loaded =
     (Inr (CDLL ''/site-packages/indy_credx/libindy_credx.so''), loaded)
   \<and> exported (example_env native_ok no_json) ''credx_create_schema''
   \<and> (\<exists>a5 rest.
         trace (snd (create_schema (example_env native_ok no_json)
           (lit ''did:example:123'') (lit ''degree'') (lit ''1.0'') [] None loaded)) =
         trace loaded @ Call (credx_create_schema (Some (lit ''did:example:123''))
           (Some (lit ''degree'')) (Some (lit ''1.0'')) (Some (lit ''[]'')) a5) # rest
         \<and> sint a5 = - 1)
   \<and> (\<exists>a5 rest.
         trace (snd (create_schema (example_env native_ok no_json)
           (lit ''did:example:123'') (lit ''degree'') (lit ''1.0'') [] (Some 0) loaded)) =
         trace loaded @ Call (credx_create_schema (Some (lit ''did:example:123''))
           (Some (lit ''degree'')) (Some (lit ''1.0'')) (Some (lit ''[]'')) a5) # rest
         \<and> sint a5 = - 1)
   \<and> (\<exists>a5 rest.
         trace (snd (create_schema (example_env native_ok no_json)
           (lit ''did:example:123'') (lit ''degree'') (lit ''1.0'') [] (Some 7) loaded)) =
         trace loaded @ Call (credx_create_schema (Some (lit ''did:example:123''))
           (Some (lit ''degree'')) (Some (lit ''1.0'')) (Some (lit ''[]'')) a5) # rest
         \<and> sint a5 = 7)"
proof -
  note t = create_schema_seq_no [OF get_library_at_loaded example_exported
      encode_str_did encode_str_degree encode_str_version encode_str_no_attrs,
      where b1 = native_ok and d1 = no_json]
  have a: "\<exists>a5 rest.
         trace (snd (create_schema (example_env native_ok no_json)
           (lit ''did:example:123'') (lit ''degree'') (lit ''1.0'') [] None loaded)) =
         trace loaded @ Call (credx_create_schema (Some (lit ''did:example:123''))
           (Some (lit ''degree'')) (Some (lit ''1.0'')) (Some (lit ''[]'')) a5) # rest
         \<and> sint a5 = - 1"
    using t [where seq_no = None] by blast
  have b: "\<exists>a5 rest.
         trace (snd (create_schema (example_env native_ok no_json)
           (lit ''did:example:123'') (lit ''degree'') (lit ''1.0'') [] (Some 0) loaded)) =
         trace loaded @ Call (credx_create_schema (Some (lit ''did:example:123''))
           (Some (lit ''degree'')) (Some (lit ''1.0'')) (Some (lit ''[]'')) a5) # rest
         \<and> sint a5 = - 1"
    using t [where seq_no = "Some 0"] by blast
  have c: "\<exists>a5 rest.
         trace (snd (create_schema (example_env native_ok no_json)
           (lit ''did:example:123'') (lit ''degree'') (lit ''1.0'') [] (Some 7) loaded)) =
         trace loaded @ Call (credx_create_schema (Some (lit ''did:example:123''))
           (Some (lit ''degree'')) (Some (lit ''1.0'')) (Some (lit ''[]'')) a5) # rest
         \<and> sint a5 = 7"
  proof -
    from t [where seq_no = "Some 7"] obtain a5 rest where
      1: "trace (snd (create_schema (example_env native_ok no_json)
           (lit ''did:example:123'') (lit ''degree'') (lit ''1.0'') [] (Some 7) loaded)) =
         trace loaded @ Call (credx_create_schema (Some (lit ''did:example:123''))
           (Some (lit ''degree'')) (Some (lit ''1.0'')) (Some (lit ''[]'')) a5) # rest"
      and 2: "\<forall>n. Some (7::int) = Some n \<and> n \<noteq> 0 \<and> - (2 ^ 63) \<le> n \<and> n < 2 ^ 63
                \<longrightarrow> sint a5 = n"
      by blast
    from 2 have "sint a5 = 7" by simp
    with 1 show ?thesis by blast
  qed
  from a b c show ?thesis
    by (simp add: get_library_at_loaded example_exported)
qed

text \<open>
  Claim C10 as stated fails outside that range: \<open>c_int64\<close> keeps the low 64 bits, so
  the non-zero sequence number \<open>2 ^ 64\<close> is passed as \<open>0\<close>.
\<close>

theorem create_schema_seq_no_wraps:
  "(2 ^ 64 :: int) \<noteq> 0
   \<and> create_schema (example_env native_ok no_json)
        (lit ''did:example:123'') (lit ''degree'') (lit ''1.0'') [] (Some (2 ^ 64)) loaded =
      (Inr 0,
       emit [Call (credx_create_schema (Some (lit ''did:example:123'')) (Some (lit ''degree''))
               (Some (lit ''1.0'')) (Some (lit ''[]'')) 0)] loaded)
   \<and> sint (0 :: c_int64) \<noteq> 2 ^ 64"
proof -
  have "(case Some (2 ^ 64 :: int) of None \<Rightarrow> - 1 | Some n \<Rightarrow> if n = 0 then - 1 else n) = 2 ^ 64"
    by simp
  then show ?thesis
    unfolding example_create_schema by (simp only: c_int64_wraps) simp
qed

end
